theory Spec2Isabelle
  imports Complex_Main "HOL-Library.Word" "HOL-Library.AList"
begin

section \<open>JavaScript values used by the backend\<close>

text \<open>
  Strings are lists of code units; the model covers the code units below 256, which is
  what \<^typ>\<open>char\<close> holds. A payload field that the client sends is either absent
  (\<open>undefined\<close>) or a string; the other JSON types are outside the model.
\<close>

datatype jsvalue = Undefined | Str string

text \<open>JavaScript truthiness of a payload field: \<open>undefined\<close> and the empty string are falsy.\<close>

fun truthy :: "jsvalue \<Rightarrow> bool" where
  "truthy Undefined = False"
| "truthy (Str s) = (s \<noteq> [])"

text \<open>
  Numbers: \<open>NaN\<close> or a numeric value. Values are exact rationals; the source computes in
  IEEE doubles, which agree on every integer of magnitude below \<open>2 ^ 53\<close>. Arithmetic with
  \<open>NaN\<close> gives \<open>NaN\<close>, and every comparison with \<open>NaN\<close> is false. The infinities are
  not represented: the only division of the source is by the constant 3600000.
\<close>

datatype jsnumber = NaN | Num rat

fun isNaN :: "jsnumber \<Rightarrow> bool" where
  "isNaN NaN = True"
| "isNaN (Num x) = False"

fun js_sub :: "jsnumber \<Rightarrow> jsnumber \<Rightarrow> jsnumber" where
  "js_sub (Num a) (Num b) = Num (a - b)"
| "js_sub a b = NaN"

fun js_div :: "jsnumber \<Rightarrow> jsnumber \<Rightarrow> jsnumber" where
  "js_div (Num a) (Num b) = (if b = 0 then NaN else Num (a / b))"
| "js_div a b = NaN"

fun js_gt :: "jsnumber \<Rightarrow> jsnumber \<Rightarrow> bool" where
  "js_gt (Num a) (Num b) = (a > b)"
| "js_gt a b = False"

subsection \<open>\<open>String.prototype.split\<close> with a one-character separator\<close>

text \<open>
  \<open>s.split(sep)\<close> cuts \<open>s\<close> at every occurrence of the separator; the result always has
  at least one element (\<open>"".split("-")\<close> is \<open>[""]\<close>). \<open>splitFrom\<close> carries the piece
  read so far.
\<close>

fun splitFrom :: "char \<Rightarrow> string \<Rightarrow> string \<Rightarrow> string list" where
  "splitFrom sep cur [] = [cur]"
| "splitFrom sep cur (c # cs) =
     (if c = sep then cur # splitFrom sep [] cs else splitFrom sep (cur @ [c]) cs)"

definition split :: "char \<Rightarrow> string \<Rightarrow> string list" where
  "split sep s = splitFrom sep [] s"

subsection \<open>\<open>parseInt\<close> with no radix argument\<close>

text \<open>
  The white space and line terminator code units below 256: TAB, LF, VT, FF, CR, SP, NBSP.
\<close>

definition isWhiteSpace :: "char \<Rightarrow> bool" where
  "isWhiteSpace c = ((of_char c :: nat) \<in> {9, 10, 11, 12, 13, 32, 160})"

definition digitValue :: "char \<Rightarrow> nat option" where
  "digitValue c =
     (let n = (of_char c :: nat) in
      if 48 \<le> n \<and> n \<le> 57 then Some (n - 48)
      else if 97 \<le> n \<and> n \<le> 122 then Some (n - 87)
      else if 65 \<le> n \<and> n \<le> 90 then Some (n - 55)
      else None)"

definition isRadixDigit :: "nat \<Rightarrow> char \<Rightarrow> bool" where
  "isRadixDigit R c = (case digitValue c of None \<Rightarrow> False | Some d \<Rightarrow> d < R)"

definition digitsValue :: "nat \<Rightarrow> string \<Rightarrow> nat" where
  "digitsValue R Z = foldl (\<lambda>acc c. acc * R + the (digitValue c)) 0 Z"

text \<open>
  The steps of ECMAScript's \<open>parseInt(string)\<close>: skip leading white space, read an optional
  sign, switch to radix 16 after a \<open>0x\<close> or \<open>0X\<close> prefix, then read the longest run of
  digits of the radix; no digit at all gives \<open>NaN\<close>. Whatever follows the digits is ignored.
\<close>

definition parseInt :: "string \<Rightarrow> jsnumber" where
  "parseInt inputString =
     (let S0 = dropWhile isWhiteSpace inputString;
          sign = (if S0 \<noteq> [] \<and> hd S0 = CHR ''-'' then - 1 else (1 :: int));
          S1 = (if S0 \<noteq> [] \<and> (hd S0 = CHR ''+'' \<or> hd S0 = CHR ''-'') then tl S0 else S0);
          hex = (2 \<le> length S1 \<and> (take 2 S1 = ''0x'' \<or> take 2 S1 = ''0X''));
          R = (if hex then 16 else 10);
          S2 = (if hex then drop 2 S1 else S1);
          Z = takeWhile (isRadixDigit R) S2
      in if Z = [] then NaN else Num (of_int (sign * int (digitsValue R Z))))"

subsection \<open>Number to string, bytes to hex\<close>

definition digitChar :: "nat \<Rightarrow> char" where
  "digitChar d = ''0123456789abcdef'' ! d"

fun showNat :: "nat \<Rightarrow> string" where
  "showNat n = (if n < 10 then [digitChar n] else showNat (n div 10) @ [digitChar (n mod 10)])"

declare showNat.simps [simp del]

text \<open>
  The template literal \<open>`${timestamp}`\<close> of an integer: decimal digits, with a leading
  minus sign for a negative one (the form JavaScript prints below \<open>10 ^ 21\<close>).
\<close>

definition showInt :: "int \<Rightarrow> string" where
  "showInt i = (if i < 0 then CHR ''-'' # showNat (nat (- i)) else showNat (nat i))"

text \<open>\<open>Buffer.toString('hex')\<close>: two lower-case hexadecimal digits for each byte.\<close>

definition byteHex :: "8 word \<Rightarrow> string" where
  "byteHex b = [digitChar (unat b div 16), digitChar (unat b mod 16)]"

definition toHex :: "8 word list \<Rightarrow> string" where
  "toHex bs = concat (map byteHex bs)"

section \<open>Meeting identifiers (\<open>utils/expiry.ts\<close>)\<close>

text \<open>
  \<open>generateMeetingId\<close>: the first argument is what \<open>crypto.randomBytes(8)\<close> returned, the
  second what \<open>Date.now()\<close> returned.
\<close>

definition generateMeetingId :: "8 word list \<Rightarrow> int \<Rightarrow> string" where
  "generateMeetingId randomBytes now =
     (let randomHash = toHex randomBytes;
          timestamp = now
      in randomHash @ ''-'' @ showInt timestamp)"

text \<open>
  \<open>isMeetingExpired\<close> and \<open>getMeetingAge\<close> take the clock reading \<open>Date.now()\<close> as their
  first argument. Calling \<open>.split\<close> on a value that is not a string throws a \<open>TypeError\<close>,
  which is the only way into the \<open>catch\<close> blocks: on a string no statement of the
  \<open>try\<close> blocks throws.
\<close>

definition twentyFourHours :: jsnumber where
  "twentyFourHours = Num (24 * 60 * 60 * 1000)"

fun isMeetingExpired :: "int \<Rightarrow> jsvalue \<Rightarrow> bool" where
  "isMeetingExpired now Undefined = True"
| "isMeetingExpired now (Str meetingId) =
     (let parts = split CHR ''-'' meetingId;
          timestamp = parseInt (last parts)
      in if isNaN timestamp then True
         else let age = js_sub (Num (of_int now)) timestamp
              in js_gt age twentyFourHours)"

fun getMeetingAge :: "int \<Rightarrow> jsvalue \<Rightarrow> jsnumber" where
  "getMeetingAge now Undefined = Num 999"
| "getMeetingAge now (Str meetingId) =
     (let parts = split CHR ''-'' meetingId;
          timestamp = parseInt (last parts);
          age = js_sub (Num (of_int now)) timestamp
      in js_div age (Num (60 * 60 * 1000)))"


text \<open>
  The shape the specification gives for a generated identifier, the regular expression
  \<open>^[0-9a-f]{16}-\d+$\<close>, written out as a check on the string.
\<close>

definition isDecimalDigit :: "char \<Rightarrow> bool" where
  "isDecimalDigit c = (c \<in> set ''0123456789'')"

definition isLowerHexChar :: "char \<Rightarrow> bool" where
  "isLowerHexChar c = (c \<in> set ''0123456789abcdef'')"

definition matchesMeetingIdFormat :: "string \<Rightarrow> bool" where
  "matchesMeetingIdFormat s =
     (17 < length s \<and> list_all isLowerHexChar (take 16 s) \<and> s ! 16 = CHR ''-''
      \<and> list_all isDecimalDigit (drop 17 s))"

text \<open>
  A valid integer in the specification's sense: an optional sign followed by one or more
  decimal digits and nothing else. This is the reading of the specification, not what
  \<open>parseInt\<close> accepts.
\<close>

definition validInteger :: "string \<Rightarrow> bool" where
  "validInteger seg =
     (let ds = (if seg \<noteq> [] \<and> (hd seg = CHR ''+'' \<or> hd seg = CHR ''-'') then tl seg else seg)
      in ds \<noteq> [] \<and> list_all isDecimalDigit ds)"

section \<open>The media engine, as the registry sees it\<close>

text \<open>
  The mediasoup worker, routers and transports are external. Every call to them is appended
  to a log, and what a call returns (a handle, or a rejection with an error) is an argument
  of the function that makes the call. A thrown or rejected JavaScript \<open>Error\<close> is a value
  carrying its message.
\<close>

datatype exn = Error string

record router =
  router_id :: string
  router_rtpCapabilities :: string

record transport =
  transport_id :: string
  transport_iceParameters :: string
  transport_iceCandidates :: string
  transport_dtlsParameters :: string

record producer =
  producer_id :: string
  producer_kind :: string

record consumer =
  consumer_id :: string
  consumer_kind :: string
  consumer_rtpParameters :: string

datatype engine_call =
    CreateRouter
  | RouterClose string
  | RouterCreateWebRtcTransport string
  | RouterCanConsume string string string
  | TransportClose string
  | TransportConnect string string
  | TransportProduce string string string
  | TransportConsume string string string

section \<open>The room registry (\<open>mediasoup/room.ts\<close>)\<close>

text \<open>
  A JavaScript \<open>Map\<close> keeps its entries in insertion order: it is an association list,
  read with \<^const>\<open>map_of\<close>, written with \<^const>\<open>AList.update\<close> (an existing key keeps
  its place, a new key goes last) and \<^const>\<open>AList.delete\<close>. The objects a map holds
  are mutated in place by the source; the model writes the changed object back under its key.
\<close>

record peer =
  peer_id :: string
  peer_userId :: string
  peer_username :: string
  peer_transports :: "(string \<times> transport) list"
  peer_producers :: "(string \<times> producer) list"
  peer_consumers :: "(string \<times> consumer) list"

record room =
  room_id :: string
  room_router :: router
  room_peers :: "(string \<times> peer) list"
  room_createdAt :: int

text \<open>The module state: the \<open>rooms\<close> map, and the log of calls made to the engine.\<close>

record registry =
  rooms :: "(string \<times> room) list"
  engineLog :: "engine_call list"

record producer_entry =
  entry_producerId :: string
  entry_peerId :: string
  entry_userId :: string
  entry_username :: string
  entry_kind :: string

record roster_entry =
  roster_peerId :: string
  roster_userId :: string
  roster_username :: string

record consume_params =
  params_id :: string
  params_producerId :: string
  params_kind :: string
  params_rtpParameters :: string

definition engineCall :: "engine_call \<Rightarrow> registry \<Rightarrow> registry" where
  "engineCall c st = st\<lparr>engineLog := engineLog st @ [c]\<rparr>"

text \<open>
  \<open>createRoom\<close> is asynchronous: it awaits \<open>worker.createRouter\<close> between its \<open>has\<close>
  test and its \<open>set\<close>, and other handlers run while it waits. \<open>createRoom_begin\<close> is the
  part up to the \<open>await\<close>: it returns the registered room, or starts the engine call and
  suspends (\<open>None\<close>). \<open>createRoom_resume\<close> is the part after the \<open>await\<close>, run on the
  registry as it is when the engine answers: \<open>routerOutcome\<close> is what \<open>createRouter\<close>
  resolved or rejected with, \<open>now\<close> is \<open>Date.now()\<close>. \<open>createRoom\<close> is a call during
  whose wait no other handler runs: the two parts back to back.
\<close>

definition createRoom_begin :: "string \<Rightarrow> registry \<Rightarrow> room option \<times> registry" where
  "createRoom_begin roomId st =
     (case map_of (rooms st) roomId of
        Some existing \<Rightarrow> (Some existing, st)
      | None \<Rightarrow> (None, engineCall CreateRouter st))"

definition createRoom_resume ::
  "(exn + router) \<Rightarrow> int \<Rightarrow> string \<Rightarrow> registry \<Rightarrow> (exn + room) \<times> registry" where
  "createRoom_resume routerOutcome now roomId st =
     (case routerOutcome of
        Inl e \<Rightarrow> (Inl e, st)
      | Inr r \<Rightarrow>
          (let newRoom = \<lparr>room_id = roomId, room_router = r, room_peers = [],
                          room_createdAt = now\<rparr>
           in (Inr newRoom, st\<lparr>rooms := AList.update roomId newRoom (rooms st)\<rparr>)))"

definition createRoom ::
  "(exn + router) \<Rightarrow> int \<Rightarrow> string \<Rightarrow> registry \<Rightarrow> (exn + room) \<times> registry" where
  "createRoom routerOutcome now roomId st =
     (case createRoom_begin roomId st of
        (Some existing, st1) \<Rightarrow> (Inr existing, st1)
      | (None, st1) \<Rightarrow> createRoom_resume routerOutcome now roomId st1)"

definition getRoom :: "string \<Rightarrow> registry \<Rightarrow> room option" where
  "getRoom roomId st = map_of (rooms st) roomId"

definition deleteRoom :: "string \<Rightarrow> registry \<Rightarrow> registry" where
  "deleteRoom roomId st =
     (case map_of (rooms st) roomId of
        None \<Rightarrow> st
      | Some r \<Rightarrow>
          (let st1 = engineCall (RouterClose (router_id (room_router r))) st
           in st1\<lparr>rooms := AList.delete roomId (rooms st1)\<rparr>))"

definition addPeer ::
  "string \<Rightarrow> string \<Rightarrow> string \<Rightarrow> string \<Rightarrow> registry \<Rightarrow> (exn + peer) \<times> registry" where
  "addPeer roomId peerId userId username st =
     (case map_of (rooms st) roomId of
        None \<Rightarrow> (Inl (Error (''Room '' @ roomId @ '' not found'')), st)
      | Some r \<Rightarrow>
          (let p = \<lparr>peer_id = peerId, peer_userId = userId, peer_username = username,
                     peer_transports = [], peer_producers = [], peer_consumers = []\<rparr>;
               r' = r\<lparr>room_peers := AList.update peerId p (room_peers r)\<rparr>
           in (Inr p, st\<lparr>rooms := AList.update roomId r' (rooms st)\<rparr>)))"

definition getPeer :: "string \<Rightarrow> string \<Rightarrow> registry \<Rightarrow> peer option" where
  "getPeer roomId peerId st =
     (case map_of (rooms st) roomId of
        None \<Rightarrow> None
      | Some r \<Rightarrow> map_of (room_peers r) peerId)"

definition removePeer :: "string \<Rightarrow> string \<Rightarrow> registry \<Rightarrow> registry" where
  "removePeer roomId peerId st =
     (case map_of (rooms st) roomId of
        None \<Rightarrow> st
      | Some r \<Rightarrow>
          (case map_of (room_peers r) peerId of
             None \<Rightarrow> st
           | Some p \<Rightarrow>
               (let st1 = st\<lparr>engineLog := engineLog st
                             @ map (\<lambda>(k, t). TransportClose (transport_id t)) (peer_transports p)\<rparr>;
                    r' = r\<lparr>room_peers := AList.delete peerId (room_peers r)\<rparr>
                in st1\<lparr>rooms := AList.update roomId r' (rooms st1)\<rparr>)))"

definition getRouterRtpCapabilities :: "string \<Rightarrow> registry \<Rightarrow> string option" where
  "getRouterRtpCapabilities roomId st =
     (case map_of (rooms st) roomId of
        None \<Rightarrow> None
      | Some r \<Rightarrow> Some (router_rtpCapabilities (room_router r)))"

text \<open>Writing a changed peer object back into its room.\<close>

definition storePeer :: "string \<Rightarrow> string \<Rightarrow> peer \<Rightarrow> registry \<Rightarrow> registry" where
  "storePeer roomId peerId p st =
     (case map_of (rooms st) roomId of
        None \<Rightarrow> st
      | Some r \<Rightarrow>
          st\<lparr>rooms := AList.update roomId
                 (r\<lparr>room_peers := AList.update peerId p (room_peers r)\<rparr>) (rooms st)\<rparr>)"


text \<open>
  The four asynchronous operations below take what the engine call resolves or rejects with;
  the engine is not consulted when an earlier check throws. Each is a call during whose
  wait no other handler runs.
\<close>

definition createWebRtcTransport ::
  "(exn + transport) \<Rightarrow> string \<Rightarrow> string \<Rightarrow> registry \<Rightarrow> (exn + transport) \<times> registry" where
  "createWebRtcTransport transportOutcome roomId peerId st =
     (case map_of (rooms st) roomId of
        None \<Rightarrow> (Inl (Error (''Room '' @ roomId @ '' not found'')), st)
      | Some r \<Rightarrow>
          (case map_of (room_peers r) peerId of
             None \<Rightarrow> (Inl (Error (''Peer '' @ peerId @ '' not found in room '' @ roomId)), st)
           | Some p \<Rightarrow>
               (let st1 = engineCall (RouterCreateWebRtcTransport (router_id (room_router r))) st in
                case transportOutcome of
                  Inl e \<Rightarrow> (Inl e, st1)
                | Inr t \<Rightarrow>
                    (Inr t,
                     storePeer roomId peerId
                       (p\<lparr>peer_transports := AList.update (transport_id t) t (peer_transports p)\<rparr>)
                       st1))))"

definition connectTransport ::
  "(exn + unit) \<Rightarrow> string \<Rightarrow> string \<Rightarrow> string \<Rightarrow> string \<Rightarrow> registry
    \<Rightarrow> (exn + unit) \<times> registry" where
  "connectTransport connectOutcome roomId peerId transportId dtlsParameters st =
     (case getPeer roomId peerId st of
        None \<Rightarrow> (Inl (Error (''Peer '' @ peerId @ '' not found'')), st)
      | Some p \<Rightarrow>
          (case map_of (peer_transports p) transportId of
             None \<Rightarrow> (Inl (Error (''Transport '' @ transportId @ '' not found'')), st)
           | Some t \<Rightarrow>
               (let st1 = engineCall (TransportConnect (transport_id t) dtlsParameters) st in
                case connectOutcome of
                  Inl e \<Rightarrow> (Inl e, st1)
                | Inr u \<Rightarrow> (Inr (), st1))))"

definition produce ::
  "(exn + producer) \<Rightarrow> string \<Rightarrow> string \<Rightarrow> string \<Rightarrow> string \<Rightarrow> string \<Rightarrow> registry
    \<Rightarrow> (exn + string) \<times> registry" where
  "produce produceOutcome roomId peerId transportId kind rtpParameters st =
     (case getPeer roomId peerId st of
        None \<Rightarrow> (Inl (Error (''Peer '' @ peerId @ '' not found'')), st)
      | Some p \<Rightarrow>
          (case map_of (peer_transports p) transportId of
             None \<Rightarrow> (Inl (Error (''Transport '' @ transportId @ '' not found'')), st)
           | Some t \<Rightarrow>
               (let st1 = engineCall (TransportProduce (transport_id t) kind rtpParameters) st in
                case produceOutcome of
                  Inl e \<Rightarrow> (Inl e, st1)
                | Inr pr \<Rightarrow>
                    (Inr (producer_id pr),
                     storePeer roomId peerId
                       (p\<lparr>peer_producers := AList.update (producer_id pr) pr (peer_producers p)\<rparr>)
                       st1))))"

definition consume ::
  "bool \<Rightarrow> (exn + consumer) \<Rightarrow> string \<Rightarrow> string \<Rightarrow> string \<Rightarrow> string \<Rightarrow> string \<Rightarrow> registry
    \<Rightarrow> (exn + consume_params) \<times> registry" where
  "consume canConsume consumeOutcome roomId peerId transportId producerId rtpCapabilities st =
     (case map_of (rooms st) roomId of
        None \<Rightarrow> (Inl (Error (''Room '' @ roomId @ '' not found'')), st)
      | Some r \<Rightarrow>
          (case getPeer roomId peerId st of
             None \<Rightarrow> (Inl (Error (''Peer '' @ peerId @ '' not found'')), st)
           | Some p \<Rightarrow>
               (case map_of (peer_transports p) transportId of
                  None \<Rightarrow> (Inl (Error (''Transport '' @ transportId @ '' not found'')), st)
                | Some t \<Rightarrow>
                    (let st1 = engineCall
                           (RouterCanConsume (router_id (room_router r)) producerId rtpCapabilities) st
                     in if \<not> canConsume then (Inl (Error ''Cannot consume''), st1)
                        else
                          (let st2 = engineCall
                                 (TransportConsume (transport_id t) producerId rtpCapabilities) st1
                           in case consumeOutcome of
                                Inl e \<Rightarrow> (Inl e, st2)
                              | Inr c \<Rightarrow>
                                  (Inr \<lparr>params_id = consumer_id c, params_producerId = producerId,
                                         params_kind = consumer_kind c,
                                         params_rtpParameters = consumer_rtpParameters c\<rparr>,
                                   storePeer roomId peerId
                                     (p\<lparr>peer_consumers :=
                                          AList.update (consumer_id c) c (peer_consumers p)\<rparr>)
                                     st2))))))"

text \<open>
  The two snapshots walk the peers map in insertion order, as \<open>Map.forEach\<close> does. The
  entry's \<open>peerId\<close> is the key the peer is stored under.
\<close>

definition producerEntry :: "string \<Rightarrow> peer \<Rightarrow> producer \<Rightarrow> producer_entry" where
  "producerEntry peerId p pr =
     \<lparr>entry_producerId = producer_id pr, entry_peerId = peerId, entry_userId = peer_userId p,
      entry_username = peer_username p, entry_kind = producer_kind pr\<rparr>"

definition getOtherPeersProducers :: "string \<Rightarrow> string \<Rightarrow> registry \<Rightarrow> producer_entry list" where
  "getOtherPeersProducers roomId excludePeerId st =
     (case map_of (rooms st) roomId of
        None \<Rightarrow> []
      | Some r \<Rightarrow>
          concat (map (\<lambda>(peerId, p).
                    if peerId \<noteq> excludePeerId
                    then map (\<lambda>(k, pr). producerEntry peerId p pr) (peer_producers p)
                    else [])
                  (room_peers r)))"

definition getRoomPeers :: "string \<Rightarrow> registry \<Rightarrow> roster_entry list" where
  "getRoomPeers roomId st =
     (case map_of (rooms st) roomId of
        None \<Rightarrow> []
      | Some r \<Rightarrow>
          map (\<lambda>(k, p). \<lparr>roster_peerId = peer_id p, roster_userId = peer_userId p,
                         roster_username = peer_username p\<rparr>)
              (room_peers r))"


section \<open>The signaling server (\<open>server.ts\<close>)\<close>

text \<open>
  One \<open>socket\<close> value is one connection: its id and the three fields the handlers keep in
  \<open>socket.data\<close>. The server state is the registry, the Socket.IO adapter (which sockets
  are in which broadcast room) and the list of broadcasts emitted so far, each with the
  sockets it was delivered to. \<open>socket.to(room).emit\<close> delivers to every member of the room
  but the sending socket. The handlers are the callbacks registered with \<open>socket.on\<close>,
  named \<open>on_\<close> followed by the event; the payload fields of all but \<open>joinRoom\<close> are taken
  as strings. Console output is not modelled.
\<close>

record socket =
  socket_id :: string
  socket_roomId :: "string option"
  socket_userId :: "string option"
  socket_username :: "string option"

datatype event =
    NewPeer string string string
  | NewProducer string string string
  | PeerLeft string

record emission =
  emit_room :: string
  emit_recipients :: "string list"
  emit_event :: event

record server_state =
  srv_registry :: registry
  srv_adapter :: "(string \<times> string list) list"
  srv_emitted :: "emission list"

definition members :: "server_state \<Rightarrow> string \<Rightarrow> string list" where
  "members st roomId = (case map_of (srv_adapter st) roomId of None \<Rightarrow> [] | Some ms \<Rightarrow> ms)"

definition socketJoin :: "string \<Rightarrow> string \<Rightarrow> server_state \<Rightarrow> server_state" where
  "socketJoin sid roomId st =
     st\<lparr>srv_adapter := AList.update roomId
           (if sid \<in> set (members st roomId) then members st roomId else members st roomId @ [sid])
           (srv_adapter st)\<rparr>"

definition socketLeave :: "string \<Rightarrow> string \<Rightarrow> server_state \<Rightarrow> server_state" where
  "socketLeave sid roomId st =
     (case map_of (srv_adapter st) roomId of
        None \<Rightarrow> st
      | Some ms \<Rightarrow>
          (if filter (\<lambda>m. m \<noteq> sid) ms = []
           then st\<lparr>srv_adapter := AList.delete roomId (srv_adapter st)\<rparr>
           else st\<lparr>srv_adapter := AList.update roomId (filter (\<lambda>m. m \<noteq> sid) ms) (srv_adapter st)\<rparr>))"

definition emitToRoom :: "string \<Rightarrow> string \<Rightarrow> event \<Rightarrow> server_state \<Rightarrow> server_state" where
  "emitToRoom sid roomId ev st =
     st\<lparr>srv_emitted := srv_emitted st
           @ [\<lparr>emit_room = roomId, emit_recipients = filter (\<lambda>m. m \<noteq> sid) (members st roomId),
               emit_event = ev\<rparr>]\<rparr>"

text \<open>The single reply a handler passes to its callback.\<close>

datatype reply =
    ErrorReply string
  | RoomCreated string
  | JoinSuccess "roster_entry list"
  | RtpCapabilitiesReply string
  | TransportParams transport
  | Success
  | ProducerIdReply string
  | ConsumeParams consume_params
  | ProducersReply "producer_entry list"

record joinRoom_data =
  data_roomId :: jsvalue
  data_userId :: jsvalue
  data_username :: jsvalue

text \<open>
  \<open>createRoom\<close> handler: \<open>randomBytes\<close> and \<open>now\<close> are what \<open>generateMeetingId\<close> draws,
  \<open>createdNow\<close> the later clock reading inside \<open>createRoom\<close>.
\<close>

definition on_createRoom ::
  "8 word list \<Rightarrow> int \<Rightarrow> (exn + router) \<Rightarrow> int \<Rightarrow> server_state \<Rightarrow> reply \<times> server_state" where
  "on_createRoom randomBytes now routerOutcome createdNow st =
     (let roomId = generateMeetingId randomBytes now in
      case createRoom routerOutcome createdNow roomId (srv_registry st) of
        (Inl e, reg1) \<Rightarrow> (ErrorReply ''Failed to create room'', st\<lparr>srv_registry := reg1\<rparr>)
      | (Inr r, reg1) \<Rightarrow> (RoomCreated roomId, st\<lparr>srv_registry := reg1\<rparr>))"

text \<open>
  \<open>joinRoom\<close> handler. The three payload fields are tested for truthiness first, the expiry
  of the room id second; only then is the registry touched. The payload is taken as an
  object: on \<open>null\<close> or \<open>undefined\<close> the destructuring throws and the \<open>catch\<close> replies
  \<open>Failed to join room\<close>. When the room is not registered the handler suspends inside
  \<open>createRoom\<close>: \<open>on_joinRoom_begin\<close> runs up to there, \<open>on_joinRoom_resume\<close> runs from
  the engine's answer to the reply, on the socket and the server state of that later
  moment, and \<open>on_joinRoom_finish\<close> is the stretch from \<open>addPeer\<close> to the reply that both
  paths share. \<open>on_joinRoom\<close> is a request during whose wait no other handler runs.
\<close>

datatype join_step =
    Replied "reply \<times> socket \<times> server_state"
  | AwaitingRouter string string string server_state

definition on_joinRoom_finish ::
  "string \<Rightarrow> string \<Rightarrow> string \<Rightarrow> socket \<Rightarrow> server_state \<Rightarrow> reply \<times> socket \<times> server_state" where
  "on_joinRoom_finish roomId userId username sock st =
     (case addPeer roomId (socket_id sock) userId username (srv_registry st) of
        (Inl e, reg2) \<Rightarrow> (ErrorReply ''Failed to join room'', sock, st\<lparr>srv_registry := reg2\<rparr>)
      | (Inr p, reg2) \<Rightarrow>
          (let st1 = socketJoin (socket_id sock) roomId (st\<lparr>srv_registry := reg2\<rparr>);
               sock1 = sock\<lparr>socket_roomId := Some roomId, socket_userId := Some userId,
                            socket_username := Some username\<rparr>;
               roster = filter (\<lambda>e. roster_peerId e \<noteq> socket_id sock)
                          (getRoomPeers roomId reg2);
               st2 = emitToRoom (socket_id sock) roomId
                       (NewPeer (socket_id sock) userId username) st1
           in (JoinSuccess roster, sock1, st2)))"

definition on_joinRoom_begin ::
  "int \<Rightarrow> joinRoom_data \<Rightarrow> socket \<Rightarrow> server_state \<Rightarrow> join_step" where
  "on_joinRoom_begin now d sock st =
     (if \<not> truthy (data_roomId d) \<or> \<not> truthy (data_userId d) \<or> \<not> truthy (data_username d)
      then Replied (ErrorReply ''Missing required fields'', sock, st)
      else if isMeetingExpired now (data_roomId d)
      then Replied (ErrorReply ''Meeting link has expired (24h limit)'', sock, st)
      else
        (case (data_roomId d, data_userId d, data_username d) of
           (Str roomId, Str userId, Str username) \<Rightarrow>
             (case getRoom roomId (srv_registry st) of
                Some r \<Rightarrow> Replied (on_joinRoom_finish roomId userId username sock st)
              | None \<Rightarrow>
                  (case createRoom_begin roomId (srv_registry st) of
                     (Some existing, reg1) \<Rightarrow>
                       Replied (on_joinRoom_finish roomId userId username sock
                                  (st\<lparr>srv_registry := reg1\<rparr>))
                   | (None, reg1) \<Rightarrow>
                       AwaitingRouter roomId userId username (st\<lparr>srv_registry := reg1\<rparr>)))
         | _ \<Rightarrow> Replied (ErrorReply ''Missing required fields'', sock, st)))"

definition on_joinRoom_resume ::
  "(exn + router) \<Rightarrow> int \<Rightarrow> string \<Rightarrow> string \<Rightarrow> string \<Rightarrow> socket \<Rightarrow> server_state
    \<Rightarrow> reply \<times> socket \<times> server_state" where
  "on_joinRoom_resume routerOutcome createdNow roomId userId username sock st =
     (case createRoom_resume routerOutcome createdNow roomId (srv_registry st) of
        (Inl e, reg1) \<Rightarrow> (ErrorReply ''Failed to join room'', sock, st\<lparr>srv_registry := reg1\<rparr>)
      | (Inr r, reg1) \<Rightarrow>
          on_joinRoom_finish roomId userId username sock (st\<lparr>srv_registry := reg1\<rparr>))"

definition on_joinRoom ::
  "int \<Rightarrow> (exn + router) \<Rightarrow> int \<Rightarrow> joinRoom_data \<Rightarrow> socket \<Rightarrow> server_state
    \<Rightarrow> reply \<times> socket \<times> server_state" where
  "on_joinRoom now routerOutcome createdNow d sock st =
     (case on_joinRoom_begin now d sock st of
        Replied result \<Rightarrow> result
      | AwaitingRouter roomId userId username st1 \<Rightarrow>
          on_joinRoom_resume routerOutcome createdNow roomId userId username sock st1)"

definition on_getRouterRtpCapabilities :: "string \<Rightarrow> server_state \<Rightarrow> reply" where
  "on_getRouterRtpCapabilities roomId st =
     (case getRouterRtpCapabilities roomId (srv_registry st) of
        None \<Rightarrow> ErrorReply ''Room not found''
      | Some caps \<Rightarrow> RtpCapabilitiesReply caps)"

definition on_createWebRtcTransport ::
  "(exn + transport) \<Rightarrow> string \<Rightarrow> socket \<Rightarrow> server_state \<Rightarrow> reply \<times> server_state" where
  "on_createWebRtcTransport transportOutcome roomId sock st =
     (case createWebRtcTransport transportOutcome roomId (socket_id sock) (srv_registry st) of
        (Inl e, reg1) \<Rightarrow> (ErrorReply ''Failed to create transport'', st\<lparr>srv_registry := reg1\<rparr>)
      | (Inr t, reg1) \<Rightarrow> (TransportParams t, st\<lparr>srv_registry := reg1\<rparr>))"

definition on_connectTransport ::
  "(exn + unit) \<Rightarrow> string \<Rightarrow> string \<Rightarrow> string \<Rightarrow> socket \<Rightarrow> server_state
    \<Rightarrow> reply \<times> server_state" where
  "on_connectTransport connectOutcome roomId transportId dtlsParameters sock st =
     (case connectTransport connectOutcome roomId (socket_id sock) transportId dtlsParameters
             (srv_registry st) of
        (Inl e, reg1) \<Rightarrow> (ErrorReply ''Failed to connect transport'', st\<lparr>srv_registry := reg1\<rparr>)
      | (Inr u, reg1) \<Rightarrow> (Success, st\<lparr>srv_registry := reg1\<rparr>))"

definition on_produce ::
  "(exn + producer) \<Rightarrow> string \<Rightarrow> string \<Rightarrow> string \<Rightarrow> string \<Rightarrow> socket \<Rightarrow> server_state
    \<Rightarrow> reply \<times> server_state" where
  "on_produce produceOutcome roomId transportId kind rtpParameters sock st =
     (case produce produceOutcome roomId (socket_id sock) transportId kind rtpParameters
             (srv_registry st) of
        (Inl e, reg1) \<Rightarrow> (ErrorReply ''Failed to produce'', st\<lparr>srv_registry := reg1\<rparr>)
      | (Inr producerId, reg1) \<Rightarrow>
          (ProducerIdReply producerId,
           emitToRoom (socket_id sock) roomId (NewProducer (socket_id sock) producerId kind)
             (st\<lparr>srv_registry := reg1\<rparr>)))"

definition on_consume ::
  "bool \<Rightarrow> (exn + consumer) \<Rightarrow> string \<Rightarrow> string \<Rightarrow> string \<Rightarrow> string \<Rightarrow> socket \<Rightarrow> server_state
    \<Rightarrow> reply \<times> server_state" where
  "on_consume canConsume consumeOutcome roomId transportId producerId rtpCapabilities sock st =
     (case consume canConsume consumeOutcome roomId (socket_id sock) transportId producerId
             rtpCapabilities (srv_registry st) of
        (Inl e, reg1) \<Rightarrow> (ErrorReply ''Failed to consume'', st\<lparr>srv_registry := reg1\<rparr>)
      | (Inr params, reg1) \<Rightarrow> (ConsumeParams params, st\<lparr>srv_registry := reg1\<rparr>))"

definition on_getProducers :: "string \<Rightarrow> socket \<Rightarrow> server_state \<Rightarrow> reply" where
  "on_getProducers roomId sock st =
     ProducersReply (getOtherPeersProducers roomId (socket_id sock) (srv_registry st))"

text \<open>
  \<open>handleDisconnect\<close> reads \<open>socket.data.roomId\<close>, which \<open>joinRoom\<close> sets and nothing
  clears. Both the \<open>leaveRoom\<close> and the \<open>disconnect\<close> handler call it.
\<close>

definition handleDisconnect :: "socket \<Rightarrow> server_state \<Rightarrow> server_state" where
  "handleDisconnect sock st =
     (case socket_roomId sock of
        None \<Rightarrow> st
      | Some roomId \<Rightarrow>
          (let st1 = st\<lparr>srv_registry := removePeer roomId (socket_id sock) (srv_registry st)\<rparr>;
               st2 = emitToRoom (socket_id sock) roomId (PeerLeft (socket_id sock)) st1
           in socketLeave (socket_id sock) roomId st2))"

definition on_leaveRoom :: "socket \<Rightarrow> server_state \<Rightarrow> server_state" where
  "on_leaveRoom sock st = handleDisconnect sock st"

definition on_disconnect :: "socket \<Rightarrow> server_state \<Rightarrow> server_state" where
  "on_disconnect sock st = handleDisconnect sock st"

text \<open>How many \<open>peerLeft\<close> events for a peer a socket has been sent.\<close>

definition peerLeftReceived :: "string \<Rightarrow> string \<Rightarrow> server_state \<Rightarrow> nat" where
  "peerLeftReceived receiver peerId st =
     length (filter (\<lambda>e. emit_event e = PeerLeft peerId \<and> receiver \<in> set (emit_recipients e))
               (srv_emitted st))"


section \<open>A worked scenario\<close>

text \<open>
  The scenario of the specification, run through the handlers: Alice (socket \<open>A\<close>) joins
  a freshly generated room one second after its creation instant, Bob (socket \<open>B\<close>) joins a
  second later, Alice creates a transport and produces a video track. Two further room ids
  are used: one whose timestamp lies 25 hours before the clock reading \<open>1700000000000\<close>, and
  one whose trailing segment is a current timestamp followed by a letter. In a second run
  from the empty server, Alice's and Bob's \<open>joinRoom\<close> requests for the unregistered room
  are both in flight: each begins before the engine has answered the other.
\<close>

definition exampleRoomId :: string where
  "exampleRoomId = ''0aff010203040506-1700000000000''"

definition expiredRoomId :: string where
  "expiredRoomId = ''0aff010203040506-1699910000000''"

definition tamperedRoomId :: string where
  "tamperedRoomId = ''0aff010203040506-1700000000000x''"

definition exampleRouter :: router where
  "exampleRouter = \<lparr>router_id = ''router1'', router_rtpCapabilities = ''caps''\<rparr>"

definition exampleTransport :: transport where
  "exampleTransport = \<lparr>transport_id = ''t1'', transport_iceParameters = ''ice'',
     transport_iceCandidates = ''candidates'', transport_dtlsParameters = ''dtls''\<rparr>"

definition exampleProducer :: producer where
  "exampleProducer = \<lparr>producer_id = ''prod1'', producer_kind = ''video''\<rparr>"

definition emptyServer :: server_state where
  "emptyServer = \<lparr>srv_registry = \<lparr>rooms = [], engineLog = []\<rparr>, srv_adapter = [], srv_emitted = []\<rparr>"

definition newSocket :: "string \<Rightarrow> socket" where
  "newSocket sid = \<lparr>socket_id = sid, socket_roomId = None, socket_userId = None, socket_username = None\<rparr>"

definition joinData :: "string \<Rightarrow> string \<Rightarrow> string \<Rightarrow> joinRoom_data" where
  "joinData roomId userId username =
     \<lparr>data_roomId = Str roomId, data_userId = Str userId, data_username = Str username\<rparr>"

definition alicePeer :: peer where
  "alicePeer = \<lparr>peer_id = ''A'', peer_userId = ''u1'', peer_username = ''Alice'',
     peer_transports = [], peer_producers = [], peer_consumers = []\<rparr>"

definition bobPeer :: peer where
  "bobPeer = \<lparr>peer_id = ''B'', peer_userId = ''u2'', peer_username = ''Bob'',
     peer_transports = [], peer_producers = [], peer_consumers = []\<rparr>"

definition exampleRoom :: "(string \<times> peer) list \<Rightarrow> room" where
  "exampleRoom ps = \<lparr>room_id = exampleRoomId, room_router = exampleRouter, room_peers = ps,
     room_createdAt = 1700000001000\<rparr>"

definition aliceJoined :: "reply \<times> socket \<times> server_state" where
  "aliceJoined = on_joinRoom 1700000001000 (Inr exampleRouter) 1700000001000
      (joinData exampleRoomId ''u1'' ''Alice'') (newSocket ''A'') emptyServer"

definition aliceSocket :: socket where
  "aliceSocket = fst (snd aliceJoined)"

definition aliceOnly :: server_state where
  "aliceOnly = snd (snd aliceJoined)"

definition bobJoined :: "reply \<times> socket \<times> server_state" where
  "bobJoined = on_joinRoom 1700000002000 (Inr exampleRouter) 1700000002000
      (joinData exampleRoomId ''u2'' ''Bob'') (newSocket ''B'') (snd (snd aliceJoined))"

definition bothJoined :: server_state where
  "bothJoined = snd (snd bobJoined)"

definition withTransport :: server_state where
  "withTransport = snd (on_createWebRtcTransport (Inr exampleTransport) exampleRoomId aliceSocket bothJoined)"

definition producing :: server_state where
  "producing = snd (on_produce (Inr exampleProducer) exampleRoomId ''t1'' ''video'' ''rtp'' aliceSocket withTransport)"

definition secondRouter :: router where
  "secondRouter = \<lparr>router_id = ''router2'', router_rtpCapabilities = ''caps''\<rparr>"

definition aliceWaiting :: server_state where
  "aliceWaiting = (case on_joinRoom_begin 1700000001000 (joinData exampleRoomId ''u1'' ''Alice'')
                          (newSocket ''A'') emptyServer of
                     AwaitingRouter roomId userId username st \<Rightarrow> st
                   | Replied result \<Rightarrow> snd (snd result))"

definition bothWaiting :: server_state where
  "bothWaiting = (case on_joinRoom_begin 1700000001000 (joinData exampleRoomId ''u2'' ''Bob'')
                          (newSocket ''B'') aliceWaiting of
                     AwaitingRouter roomId userId username st \<Rightarrow> st
                   | Replied result \<Rightarrow> snd (snd result))"

definition aliceRaced :: "reply \<times> socket \<times> server_state" where
  "aliceRaced = on_joinRoom_resume (Inr exampleRouter) 1700000001000 exampleRoomId ''u1'' ''Alice''
                  (newSocket ''A'') bothWaiting"

definition afterAliceRaced :: server_state where
  "afterAliceRaced = snd (snd aliceRaced)"

definition bobRaced :: "reply \<times> socket \<times> server_state" where
  "bobRaced = on_joinRoom_resume (Inr secondRouter) 1700000002000 exampleRoomId ''u2'' ''Bob''
                  (newSocket ''B'') (snd (snd aliceRaced))"

definition afterBobRaced :: server_state where
  "afterBobRaced = snd (snd bobRaced)"

section \<open>Calls that run without interleaving\<close>

text \<open>
  A \<open>createRoom\<close> call and a \<open>joinRoom\<close> request during whose wait nothing else runs, each
  written out as one step.
\<close>

lemma createRoom_atomic:
  "createRoom routerOutcome now roomId st =
     (case map_of (rooms st) roomId of
        Some existing \<Rightarrow> (Inr existing, st)
      | None \<Rightarrow>
          (let st1 = engineCall CreateRouter st in
           case routerOutcome of
             Inl e \<Rightarrow> (Inl e, st1)
           | Inr r \<Rightarrow>
               (let newRoom = \<lparr>room_id = roomId, room_router = r, room_peers = [],
                               room_createdAt = now\<rparr>
                in (Inr newRoom, st1\<lparr>rooms := AList.update roomId newRoom (rooms st1)\<rparr>))))"
  by (simp add: createRoom_def createRoom_begin_def createRoom_resume_def Let_def
      split: option.splits sum.splits)

lemma on_joinRoom_atomic:
  "on_joinRoom now routerOutcome createdNow d sock st =
     (if \<not> truthy (data_roomId d) \<or> \<not> truthy (data_userId d) \<or> \<not> truthy (data_username d)
      then (ErrorReply ''Missing required fields'', sock, st)
      else if isMeetingExpired now (data_roomId d)
      then (ErrorReply ''Meeting link has expired (24h limit)'', sock, st)
      else
        (case (data_roomId d, data_userId d, data_username d) of
           (Str roomId, Str userId, Str username) \<Rightarrow>
             (case (case getRoom roomId (srv_registry st) of
                      Some r \<Rightarrow> (Inr r, srv_registry st)
                    | None \<Rightarrow> createRoom routerOutcome createdNow roomId (srv_registry st)) of
                (Inl e, reg1) \<Rightarrow> (ErrorReply ''Failed to join room'', sock, st\<lparr>srv_registry := reg1\<rparr>)
              | (Inr r, reg1) \<Rightarrow>
                  (case addPeer roomId (socket_id sock) userId username reg1 of
                     (Inl e, reg2) \<Rightarrow>
                       (ErrorReply ''Failed to join room'', sock, st\<lparr>srv_registry := reg2\<rparr>)
                   | (Inr p, reg2) \<Rightarrow>
                       (let st1 = socketJoin (socket_id sock) roomId (st\<lparr>srv_registry := reg2\<rparr>);
                            sock1 = sock\<lparr>socket_roomId := Some roomId, socket_userId := Some userId,
                                         socket_username := Some username\<rparr>;
                            roster = filter (\<lambda>e. roster_peerId e \<noteq> socket_id sock)
                                       (getRoomPeers roomId reg2);
                            st2 = emitToRoom (socket_id sock) roomId
                                    (NewPeer (socket_id sock) userId username) st1
                        in (JoinSuccess roster, sock1, st2))))
         | _ \<Rightarrow> (ErrorReply ''Missing required fields'', sock, st)))"
  by (auto simp: on_joinRoom_def on_joinRoom_begin_def on_joinRoom_resume_def on_joinRoom_finish_def
      createRoom_def getRoom_def createRoom_begin_def Let_def
      split: jsvalue.splits option.splits prod.splits sum.splits simp del: isMeetingExpired.simps)

section \<open>Properties of the meeting identifiers\<close>

subsection \<open>Splitting, digits and the round trip through \<open>parseInt\<close>\<close>


lemma splitFrom_not_Nil: "splitFrom sep cur s \<noteq> []"
  by (induction s arbitrary: cur) auto

lemma split_not_Nil: "split sep s \<noteq> []"
  by (simp add: split_def splitFrom_not_Nil)

lemma splitFrom_no_sep: "sep \<notin> set s \<Longrightarrow> splitFrom sep cur s = [cur @ s]"
  by (induction s arbitrary: cur) auto

lemma last_splitFrom_append:
  assumes "sep \<notin> set ys"
  shows "last (splitFrom sep cur (xs @ sep # ys)) = ys"
proof (induction xs arbitrary: cur)
  case Nil
  from assms show ?case by (simp add: splitFrom_no_sep)
next
  case (Cons x xs)
  show ?case
  proof (cases "x = sep")
    case True
    then show ?thesis using Cons [of "[]"] by (simp add: splitFrom_not_Nil)
  next
    case False
    then show ?thesis using Cons [of "cur @ [x]"] by simp
  qed
qed

lemma last_split_append: "sep \<notin> set ys \<Longrightarrow> last (split sep (xs @ sep # ys)) = ys"
  by (simp add: split_def last_splitFrom_append)

lemma digitChar_cases:
  assumes "d < 16"
  shows "digitValue (digitChar d) = Some d \<and> isLowerHexChar (digitChar d)"
proof -
  from assms have "d = 0 \<or> d = 1 \<or> d = 2 \<or> d = 3 \<or> d = 4 \<or> d = 5 \<or> d = 6 \<or> d = 7
    \<or> d = 8 \<or> d = 9 \<or> d = 10 \<or> d = 11 \<or> d = 12 \<or> d = 13 \<or> d = 14 \<or> d = 15" by arith
  then show ?thesis
    by (elim disjE) (simp_all add: digitChar_def digitValue_def isLowerHexChar_def)
qed

lemma digitChar_decimal:
  assumes "d < 10"
  shows "isDecimalDigit (digitChar d)"
proof -
  from assms have "d = 0 \<or> d = 1 \<or> d = 2 \<or> d = 3 \<or> d = 4 \<or> d = 5 \<or> d = 6 \<or> d = 7
    \<or> d = 8 \<or> d = 9" by arith
  then show ?thesis
    by (elim disjE) (simp_all add: digitChar_def isDecimalDigit_def)
qed

lemma isDecimalDigit_radix: "isDecimalDigit c \<Longrightarrow> isRadixDigit 10 c"
  by (auto simp: isDecimalDigit_def isRadixDigit_def digitValue_def)

lemma isDecimalDigit_not_ws: "isDecimalDigit c \<Longrightarrow> \<not> isWhiteSpace c \<and> c \<noteq> CHR ''+'' \<and> c \<noteq> CHR ''-'' \<and> c \<noteq> CHR ''x'' \<and> c \<noteq> CHR ''X''"
  by (auto simp: isDecimalDigit_def isWhiteSpace_def)

lemma showNat_digits: "list_all isDecimalDigit (showNat n)"
proof (induction n rule: showNat.induct)
  case (1 n)
  show ?case
  proof (cases "n < 10")
    case True
    then show ?thesis by (subst showNat.simps) (simp add: digitChar_decimal)
  next
    case False
    with 1 show ?thesis by (subst showNat.simps) (simp add: digitChar_decimal)
  qed
qed

lemma showNat_not_Nil: "showNat n \<noteq> []"
  by (subst showNat.simps) simp

lemma digitsValue_snoc: "digitsValue R (Z @ [c]) = digitsValue R Z * R + the (digitValue c)"
  by (simp add: digitsValue_def)

lemma digitsValue_showNat: "digitsValue 10 (showNat n) = n"
proof (induction n rule: showNat.induct)
  case (1 n)
  show ?case
  proof (cases "n < 10")
    case True
    then have "digitValue (digitChar n) = Some n" using digitChar_cases [of n] by simp
    with True show ?thesis by (subst showNat.simps) (simp add: digitsValue_def)
  next
    case False
    have "digitValue (digitChar (n mod 10)) = Some (n mod 10)"
      using digitChar_cases [of "n mod 10"] by simp
    with False 1 show ?thesis
      by (subst showNat.simps) (simp add: digitsValue_snoc)
  qed
qed

lemma parseInt_decimal:
  assumes ds: "list_all isDecimalDigit s" and ne: "s \<noteq> []"
  shows "parseInt s = Num (of_nat (digitsValue 10 s))"
proof -
  from ne ds have c: "isDecimalDigit (hd s)" by (cases s) auto
  have dw: "dropWhile isWhiteSpace s = s"
    using ne c isDecimalDigit_not_ws by (cases s) auto
  have sgn: "hd s \<noteq> CHR ''+''" "hd s \<noteq> CHR ''-''"
    using c isDecimalDigit_not_ws by auto
  have nox: "CHR ''x'' \<notin> set s" "CHR ''X'' \<notin> set s"
    using ds isDecimalDigit_not_ws by (auto simp: list_all_iff)
  have nohex: "take 2 s \<noteq> ''0x''" "take 2 s \<noteq> ''0X''"
  proof -
    show "take 2 s \<noteq> ''0x''"
    proof
      assume "take 2 s = ''0x''"
      then have "CHR ''x'' \<in> set (take 2 s)" by simp
      then show False using nox by (meson in_set_takeD)
    qed
    show "take 2 s \<noteq> ''0X''"
    proof
      assume "take 2 s = ''0X''"
      then have "CHR ''X'' \<in> set (take 2 s)" by simp
      then show False using nox by (meson in_set_takeD)
    qed
  qed
  have tw: "takeWhile (isRadixDigit 10) s = s"
    using ds isDecimalDigit_radix by (auto simp: list_all_iff)
  show ?thesis
    unfolding parseInt_def Let_def dw
    by (simp only: sgn nohex tw ne simp_thms if_False if_True mult_1 of_int_of_nat_eq)
qed

lemma parseInt_showNat: "parseInt (showNat n) = Num (of_nat n)"
  by (simp add: parseInt_decimal showNat_digits showNat_not_Nil digitsValue_showNat)


lemma length_toHex: "length (toHex bs) = 2 * length bs"
  by (induction bs) (simp_all add: toHex_def byteHex_def)

lemma toHex_chars: "list_all isLowerHexChar (toHex bs)"
proof (induction bs)
  case Nil
  then show ?case by (simp add: toHex_def)
next
  case (Cons b bs)
  have "unat b < 256" using unsigned_less [of b] by simp
  then have "unat b div 16 < 16" "unat b mod 16 < 16" by simp_all
  then have "isLowerHexChar (digitChar (unat b div 16))" "isLowerHexChar (digitChar (unat b mod 16))"
    using digitChar_cases by blast+
  with Cons show ?case by (simp add: toHex_def byteHex_def)
qed

lemma showNat_no_dash: "CHR ''-'' \<notin> set (showNat n)"
  using showNat_digits [of n] isDecimalDigit_not_ws by (auto simp: list_all_iff)

lemma generateMeetingId_nonneg:
  "0 \<le> now \<Longrightarrow> generateMeetingId bs now = toHex bs @ CHR ''-'' # showNat (nat now)"
  by (simp add: generateMeetingId_def showInt_def)

lemma parseInt_generated:
  "0 \<le> now \<Longrightarrow> parseInt (last (split CHR ''-'' (generateMeetingId bs now))) = Num (of_int now)"
  by (simp add: generateMeetingId_nonneg last_split_append showNat_no_dash parseInt_showNat)

lemma isMeetingExpired_generated:
  assumes "0 \<le> now"
  shows "isMeetingExpired t (Str (generateMeetingId bs now)) = (t - now > 24 * 60 * 60 * 1000)"
proof -
  have "(rat_of_int t - rat_of_int now > 86400000) = (t - now > 86400000)"
    by (metis of_int_diff of_int_less_iff of_int_numeral)
  then show ?thesis
    using assms by (simp add: parseInt_generated twentyFourHours_def)
qed

lemma matches_generated:
  assumes "length bs = 8" "0 \<le> now"
  shows "matchesMeetingIdFormat (generateMeetingId bs now)"
proof -
  have l: "length (toHex bs) = 16" using assms by (simp add: length_toHex)
  have "showNat (nat now) \<noteq> []" by (rule showNat_not_Nil)
  then have "0 < length (showNat (nat now))" by simp
  with l assms show ?thesis
    by (simp add: matchesMeetingIdFormat_def generateMeetingId_nonneg toHex_chars
        showNat_digits nth_append)
qed

subsection \<open>Generated identifiers\<close>


text \<open>
  Claim C3. An identifier generated from eight random bytes at a clock reading that is not
  negative has the form of sixteen lower-case hexadecimal digits, a hyphen and a run of
  decimal digits; it is not expired at the instant of generation; and at any clock reading
  \<open>t\<close> it is expired exactly when \<open>t\<close> is more than 24 hours (86400000 ms) after the
  generation instant.
\<close>

theorem generateMeetingId_fresh_then_expires:
  assumes "length randomBytes = 8" and "0 \<le> now"
  shows "matchesMeetingIdFormat (generateMeetingId randomBytes now)
    \<and> \<not> isMeetingExpired now (Str (generateMeetingId randomBytes now))
    \<and> (\<forall>t. isMeetingExpired t (Str (generateMeetingId randomBytes now))
          = (t - now > 24 * 60 * 60 * 1000))"
proof (intro conjI allI)
  show "matchesMeetingIdFormat (generateMeetingId randomBytes now)"
    using assms by (rule matches_generated)
  show "\<not> isMeetingExpired now (Str (generateMeetingId randomBytes now))"
    unfolding isMeetingExpired_generated [OF assms(2)] by simp
  show "isMeetingExpired t (Str (generateMeetingId randomBytes now)) = (t - now > 24 * 60 * 60 * 1000)" for t
    by (rule isMeetingExpired_generated [OF assms(2)])
qed

lemma generate_example:
  "generateMeetingId [0x0a, 0xff, 1, 2, 3, 4, 5, 6] 1700000000000 = ''0aff010203040506-1700000000000''"
  by (simp add: generateMeetingId_def showInt_def toHex_def byteHex_def digitChar_def showNat.simps)


theorem generateMeetingId_fresh_then_expires_witness:
  "length [0x0a, 0xff, 1, 2, 3, 4, 5, 6 :: 8 word] = 8 \<and> (0::int) \<le> 1700000000000
   \<and> matchesMeetingIdFormat ''0aff010203040506-1700000000000''
   \<and> \<not> isMeetingExpired 1700000000000 (Str ''0aff010203040506-1700000000000'')
   \<and> \<not> isMeetingExpired (1700000000000 + 86400000) (Str ''0aff010203040506-1700000000000'')
   \<and> isMeetingExpired (1700000000000 + 86400001) (Str ''0aff010203040506-1700000000000'')"
proof -
  have pre: "length [0x0a, 0xff, 1, 2, 3, 4, 5, 6 :: 8 word] = 8" "(0::int) \<le> 1700000000000"
    by simp_all
  note th = generateMeetingId_fresh_then_expires [OF pre, unfolded generate_example]
  from th have m: "matchesMeetingIdFormat ''0aff010203040506-1700000000000''"
    and fresh: "\<not> isMeetingExpired 1700000000000 (Str ''0aff010203040506-1700000000000'')"
    and later: "\<And>t. isMeetingExpired t (Str ''0aff010203040506-1700000000000'')
          = (t - 1700000000000 > 24 * 60 * 60 * 1000)"
    by blast+
  have a: "\<not> isMeetingExpired (1700000000000 + 86400000) (Str ''0aff010203040506-1700000000000'')"
    unfolding later by simp
  have b: "isMeetingExpired (1700000000000 + 86400001) (Str ''0aff010203040506-1700000000000'')"
    unfolding later by simp
  from pre m fresh a b show ?thesis by blast
qed

subsection \<open>Identifiers that do not parse\<close>

lemmas parse_defs = split_def parseInt_def isWhiteSpace_def isRadixDigit_def digitValue_def
  digitsValue_def twentyFourHours_def

lemma isRadixDigit_10_decimal:
  assumes "isRadixDigit 10 c"
  shows "isDecimalDigit c"
proof -
  from assms have "48 \<le> (of_char c :: nat) \<and> (of_char c :: nat) \<le> 57"
    by (auto simp: isRadixDigit_def digitValue_def Let_def split: if_splits)
  then have "(of_char c :: nat) = 48 \<or> (of_char c :: nat) = 49 \<or> (of_char c :: nat) = 50
      \<or> (of_char c :: nat) = 51 \<or> (of_char c :: nat) = 52 \<or> (of_char c :: nat) = 53
      \<or> (of_char c :: nat) = 54 \<or> (of_char c :: nat) = 55 \<or> (of_char c :: nat) = 56
      \<or> (of_char c :: nat) = 57"
    by arith
  then have "\<exists>d \<in> set ''0123456789''. (of_char c :: nat) = of_char d"
    by (elim disjE) simp_all
  then obtain d where d: "d \<in> set ''0123456789''" and "(of_char c :: nat) = of_char d"
    by blast
  then have "c = d" by (simp only: of_char_eq_iff)
  with d show ?thesis by (simp only: isDecimalDigit_def)
qed

lemma parseInt_no_digit:
  assumes nodigit: "\<forall>c \<in> set seg. \<not> isDecimalDigit c"
  shows "parseInt seg = NaN"
proof -
  define S0 where "S0 = dropWhile isWhiteSpace seg"
  define S1 where "S1 = (if S0 \<noteq> [] \<and> (hd S0 = CHR ''+'' \<or> hd S0 = CHR ''-'') then tl S0 else S0)"
  have "set S0 \<subseteq> set seg" unfolding S0_def by (rule set_dropWhileD [THEN subsetI]) 
  moreover have "set S1 \<subseteq> set S0" unfolding S1_def by (auto dest: list.set_sel(2))
  ultimately have sub: "set S1 \<subseteq> set seg" by blast
  have zero: "isDecimalDigit CHR ''0''" by (simp add: isDecimalDigit_def)
  have nohex: "take 2 S1 \<noteq> ''0x''" "take 2 S1 \<noteq> ''0X''"
  proof -
    have "CHR ''0'' \<notin> set (take 2 S1)"
      using sub nodigit zero by (meson in_set_takeD subsetD)
    then show "take 2 S1 \<noteq> ''0x''" "take 2 S1 \<noteq> ''0X''" by auto
  qed
  have "takeWhile (isRadixDigit 10) S1 = []"
  proof (cases S1)
    case Nil
    then show ?thesis by simp
  next
    case (Cons c cs)
    then have "c \<in> set seg" using sub by auto
    with nodigit have "\<not> isRadixDigit 10 c" using isRadixDigit_10_decimal by blast
    with Cons show ?thesis by simp
  qed
  then show ?thesis
    unfolding parseInt_def Let_def S0_def [symmetric] S1_def [symmetric]
    by (simp add: nohex)
qed

text \<open>
  A trailing segment that \<open>parseInt\<close> cannot read at all (after optional white space,
  sign and \<open>0x\<close> prefix no digit follows) makes the id expired at every clock reading, and
  every segment without a decimal digit is of that kind.
\<close>

theorem isMeetingExpired_unparseable:
  "(isNaN (parseInt (last (split CHR ''-'' s))) \<longrightarrow> isMeetingExpired now (Str s))
   \<and> ((\<forall>c \<in> set (last (split CHR ''-'' s)). \<not> isDecimalDigit c) \<longrightarrow>
        isNaN (parseInt (last (split CHR ''-'' s))))"
proof (intro conjI impI)
  assume "isNaN (parseInt (last (split CHR ''-'' s)))"
  then have "parseInt (last (split CHR ''-'' s)) = NaN"
    by (cases "parseInt (last (split CHR ''-'' s))") simp_all
  then show "isMeetingExpired now (Str s)" by simp
next
  assume "\<forall>c \<in> set (last (split CHR ''-'' s)). \<not> isDecimalDigit c"
  then have "parseInt (last (split CHR ''-'' s)) = NaN" by (rule parseInt_no_digit)
  then show "isNaN (parseInt (last (split CHR ''-'' s)))" by simp
qed

text \<open>
  An instance: the segment \<open>yesterday\<close> has no digit to read.
\<close>

theorem isMeetingExpired_unparseable_witness:
  "list_all (\<lambda>c. \<not> isDecimalDigit c) (last (split CHR ''-'' ''0aff010203040506-yesterday''))
   \<and> isNaN (parseInt (last (split CHR ''-'' ''0aff010203040506-yesterday'')))
   \<and> isMeetingExpired 1700000000000 (Str ''0aff010203040506-yesterday'')"
proof -
  have nodigit: "list_all (\<lambda>c. \<not> isDecimalDigit c)
      (last (split CHR ''-'' ''0aff010203040506-yesterday''))"
    by (simp add: split_def isDecimalDigit_def)
  note th = isMeetingExpired_unparseable [of "''0aff010203040506-yesterday''" 1700000000000]
  from th nodigit have nan: "isNaN (parseInt (last (split CHR ''-'' ''0aff010203040506-yesterday'')))"
    unfolding list_all_iff by blast
  from th nan have "isMeetingExpired 1700000000000 (Str ''0aff010203040506-yesterday'')"
    by blast
  with nodigit nan show ?thesis by blast
qed

lemma parseInt_digit_prefix:
  assumes ds: "list_all isDecimalDigit ds" and ne: "ds \<noteq> []"
    and r: "\<not> isRadixDigit 10 r"
    and nohexprefix: "\<not> (ds = ''0'' \<and> (r = CHR ''x'' \<or> r = CHR ''X''))"
  shows "parseInt (ds @ r # rest) = Num (of_nat (digitsValue 10 ds))"
proof -
  let ?s = "ds @ r # rest"
  from ne ds have c: "isDecimalDigit (hd ds)" by (cases ds) auto
  have hd: "hd ?s = hd ds" using ne by simp
  have sne: "?s \<noteq> []" by simp
  have dw: "dropWhile isWhiteSpace ?s = ?s"
    using ne c isDecimalDigit_not_ws by (cases ds) auto
  have sgn: "hd ?s \<noteq> CHR ''+''" "hd ?s \<noteq> CHR ''-''"
    unfolding hd using c isDecimalDigit_not_ws by auto
  have nox: "CHR ''x'' \<notin> set ds" "CHR ''X'' \<notin> set ds"
    using ds isDecimalDigit_not_ws by (auto simp: list_all_iff)
  have nohex: "take 2 ?s \<noteq> ''0x''" "take 2 ?s \<noteq> ''0X''"
  proof -
    show "take 2 ?s \<noteq> ''0x''"
    proof
      assume a: "take 2 ?s = ''0x''"
      show False
      proof (cases ds)
        case Nil
        with ne show ?thesis by simp
      next
        case (Cons d ds')
        show ?thesis
        proof (cases ds')
          case Nil
          with Cons a nohexprefix show ?thesis by simp
        next
          case (Cons d' ds'')
          with \<open>ds = d # ds'\<close> a nox show ?thesis by simp
        qed
      qed
    qed
    show "take 2 ?s \<noteq> ''0X''"
    proof
      assume a: "take 2 ?s = ''0X''"
      show False
      proof (cases ds)
        case Nil
        with ne show ?thesis by simp
      next
        case (Cons d ds')
        show ?thesis
        proof (cases ds')
          case Nil
          with Cons a nohexprefix show ?thesis by simp
        next
          case (Cons d' ds'')
          with \<open>ds = d # ds'\<close> a nox show ?thesis by simp
        qed
      qed
    qed
  qed
  have "\<forall>c \<in> set ds. isRadixDigit 10 c"
    using ds isDecimalDigit_radix by (auto simp: list_all_iff)
  then have tw: "takeWhile (isRadixDigit 10) ?s = ds"
    using r by (simp add: takeWhile_append2)
  show ?thesis
    unfolding parseInt_def Let_def dw
    by (simp only: sgn nohex tw ne sne simp_thms if_False if_True mult_1 of_int_of_nat_eq)
qed

text \<open>
  Claim C7. A trailing segment made of decimal digits followed by any other character
  is not a valid integer, yet \<open>isMeetingExpired\<close> does not treat it as malformed:
  \<open>parseInt\<close> reads the digits and ignores the rest, so the id is expired exactly when the
  digits alone are more than 24 hours old, and it gets the same answer as the id with the
  rest cut off. (The one exception, excluded here, is the digit \<open>0\<close> followed by \<open>x\<close>, which
  starts a hexadecimal number.)
\<close>

theorem isMeetingExpired_digit_prefix:
  assumes ds: "list_all isDecimalDigit ds" and ne: "ds \<noteq> []"
    and r: "\<not> isRadixDigit 10 r"
    and nohexprefix: "\<not> (ds = ''0'' \<and> (r = CHR ''x'' \<or> r = CHR ''X''))"
    and nodash: "CHR ''-'' \<notin> set (r # rest)"
  shows "last (split CHR ''-'' (pre @ CHR ''-'' # ds @ r # rest)) = ds @ r # rest
    \<and> \<not> validInteger (ds @ r # rest)
    \<and> isMeetingExpired now (Str (pre @ CHR ''-'' # ds @ r # rest))
        = (rat_of_int now - rat_of_nat (digitsValue 10 ds) > 24 * 60 * 60 * 1000)
    \<and> isMeetingExpired now (Str (pre @ CHR ''-'' # ds @ r # rest))
        = isMeetingExpired now (Str (pre @ CHR ''-'' # ds))"
proof -
  have dsdash: "CHR ''-'' \<notin> set ds"
    using ds isDecimalDigit_not_ws by (auto simp: list_all_iff)
  with nodash have "CHR ''-'' \<notin> set (ds @ r # rest)" by simp
  then have seg: "last (split CHR ''-'' (pre @ CHR ''-'' # ds @ r # rest)) = ds @ r # rest"
    by (rule last_split_append)
  have seg0: "last (split CHR ''-'' (pre @ CHR ''-'' # ds)) = ds"
    using dsdash by (rule last_split_append)
  from ne ds have c: "isDecimalDigit (hd ds)" by (cases ds) auto
  have "\<not> isDecimalDigit r" using r isDecimalDigit_radix by blast
  then have "\<not> list_all isDecimalDigit (ds @ r # rest)" by simp
  moreover have "hd (ds @ r # rest) \<noteq> CHR ''+''" "hd (ds @ r # rest) \<noteq> CHR ''-''"
    using ne c isDecimalDigit_not_ws by auto
  ultimately have invalid: "\<not> validInteger (ds @ r # rest)"
    by (simp add: validInteger_def)
  have p: "parseInt (ds @ r # rest) = Num (of_nat (digitsValue 10 ds))"
    using ds ne r nohexprefix by (rule parseInt_digit_prefix)
  have p0: "parseInt ds = Num (of_nat (digitsValue 10 ds))"
    using ds ne by (rule parseInt_decimal)
  have e: "isMeetingExpired now (Str (pre @ CHR ''-'' # ds @ r # rest))
        = (rat_of_int now - rat_of_nat (digitsValue 10 ds) > 24 * 60 * 60 * 1000)"
    unfolding isMeetingExpired.simps seg Let_def p by (simp add: twentyFourHours_def)
  have e0: "isMeetingExpired now (Str (pre @ CHR ''-'' # ds))
        = (rat_of_int now - rat_of_nat (digitsValue 10 ds) > 24 * 60 * 60 * 1000)"
    unfolding isMeetingExpired.simps seg0 Let_def p0 by (simp add: twentyFourHours_def)
  from seg invalid e e0 show ?thesis by simp
qed

text \<open>
  Claim C7 at the id \<open>0aff010203040506-1700000000000x\<close> and the clock reading
  \<open>1700000000000\<close>: the id is accepted as not expired, like the well-formed id without the
  \<open>x\<close>.
\<close>

theorem isMeetingExpired_digit_prefix_witness:
  "list_all isDecimalDigit ''1700000000000'' \<and> \<not> isRadixDigit 10 CHR ''x''
   \<and> ''1700000000000'' \<noteq> ''0'' \<and> CHR ''-'' \<notin> set ''x''
   \<and> tamperedRoomId = ''0aff010203040506'' @ CHR ''-'' # ''1700000000000'' @ CHR ''x'' # []
   \<and> last (split CHR ''-'' tamperedRoomId) = ''1700000000000x''
   \<and> \<not> validInteger ''1700000000000x''
   \<and> \<not> isMeetingExpired 1700000000000 (Str tamperedRoomId)
   \<and> isMeetingExpired 1700000000000 (Str tamperedRoomId)
       = isMeetingExpired 1700000000000 (Str exampleRoomId)"
proof -
  have h: "list_all isDecimalDigit ''1700000000000''" "''1700000000000'' \<noteq> []"
    "\<not> isRadixDigit 10 CHR ''x''"
    "\<not> (''1700000000000'' = ''0'' \<and> (CHR ''x'' = CHR ''x'' \<or> CHR ''x'' = CHR ''X''))"
    "CHR ''-'' \<notin> set (CHR ''x'' # [])"
    by (simp_all add: isDecimalDigit_def isRadixDigit_def digitValue_def)
  have t: "tamperedRoomId = ''0aff010203040506'' @ CHR ''-'' # ''1700000000000'' @ CHR ''x'' # []"
    by (simp add: tamperedRoomId_def)
  have x: "exampleRoomId = ''0aff010203040506'' @ CHR ''-'' # ''1700000000000''"
    by (simp add: exampleRoomId_def)
  have v: "digitsValue 10 ''1700000000000'' = 1700000000000"
    by (simp add: digitsValue_def digitValue_def)
  note th = isMeetingExpired_digit_prefix [OF h, of "''0aff010203040506''" 1700000000000,
      folded t x, unfolded v]
  from th have a: "last (split CHR ''-'' tamperedRoomId) = ''1700000000000x''"
    by (simp del: isMeetingExpired.simps)
  from th have b: "\<not> validInteger ''1700000000000x''"
    by (simp del: isMeetingExpired.simps)
  from th have "isMeetingExpired 1700000000000 (Str tamperedRoomId)
      = (rat_of_int 1700000000000 - rat_of_nat 1700000000000 > 24 * 60 * 60 * 1000)"
    by blast
  then have c: "\<not> isMeetingExpired 1700000000000 (Str tamperedRoomId)"
    by (simp del: isMeetingExpired.simps)
  from th have d: "isMeetingExpired 1700000000000 (Str tamperedRoomId)
       = isMeetingExpired 1700000000000 (Str exampleRoomId)" by blast
  from h t a b c d show ?thesis by (simp del: isMeetingExpired.simps)
qed

text \<open>
  Claim C9. On a string whose trailing segment does not parse, \<open>getMeetingAge\<close> does
  not reach its \<open>catch\<close> block: \<open>parseInt\<close> returns \<open>NaN\<close> without throwing, and the
  function returns \<open>NaN\<close>, not the sentinel 999.
\<close>

theorem getMeetingAge_unparseable:
  assumes "isNaN (parseInt (last (split CHR ''-'' s)))"
  shows "getMeetingAge now (Str s) = NaN"
proof -
  from assms have "parseInt (last (split CHR ''-'' s)) = NaN"
    by (cases "parseInt (last (split CHR ''-'' s))") simp_all
  then show ?thesis by simp
qed

text \<open>
  An instance, evaluated: the age of \<open>0aff010203040506-yesterday\<close> is \<open>NaN\<close>.
\<close>

theorem getMeetingAge_unparseable_witness:
  "isNaN (parseInt (last (split CHR ''-'' ''0aff010203040506-yesterday'')))
   \<and> getMeetingAge 1700000000000 (Str ''0aff010203040506-yesterday'') = NaN
   \<and> getMeetingAge 1700000000000 (Str ''0aff010203040506-yesterday'') \<noteq> Num 999"
proof -
  have nan: "isNaN (parseInt (last (split CHR ''-'' ''0aff010203040506-yesterday'')))"
    by (simp add: parse_defs)
  from nan getMeetingAge_unparseable [OF nan, of 1700000000000] show ?thesis by simp
qed

section \<open>Properties of the room registry\<close>

lemma update_absent: "map_of al k = None \<Longrightarrow> AList.update k v al = al @ [(k, v)]"
  by (induction al) (auto split: if_splits)

lemma map_of_update_same: "map_of (AList.update k v al) k = Some v"
  by (simp add: update_conv')

lemma map_of_update_other: "k' \<noteq> k \<Longrightarrow> map_of (AList.update k v al) k' = map_of al k'"
  by (simp add: update_conv')

text \<open>
  A \<open>createRoom\<close> call during whose wait nothing else runs is idempotent. On a room id
  that is already registered it returns the registered room and leaves the registry as it
  was, the engine log included: no router is created. On an absent room id, when the engine
  delivers a router, it makes exactly one \<open>createRouter\<close> call and appends the new, empty
  room to the registry; a second call then returns that same room and changes nothing.
\<close>

theorem createRoom_idempotent:
  "(\<forall>r. map_of (rooms st) roomId = Some r \<longrightarrow>
       createRoom routerOutcome now roomId st = (Inr r, st))
   \<and> (map_of (rooms st) roomId = None \<longrightarrow>
       createRoom (Inr rt) now roomId st =
         (Inr \<lparr>room_id = roomId, room_router = rt, room_peers = [], room_createdAt = now\<rparr>,
          st\<lparr>engineLog := engineLog st @ [CreateRouter],
             rooms := rooms st @ [(roomId, \<lparr>room_id = roomId, room_router = rt, room_peers = [],
                                          room_createdAt = now\<rparr>)]\<rparr>)
       \<and> createRoom routerOutcome2 now2 roomId (snd (createRoom (Inr rt) now roomId st)) =
         (Inr \<lparr>room_id = roomId, room_router = rt, room_peers = [], room_createdAt = now\<rparr>,
          snd (createRoom (Inr rt) now roomId st)))"
proof (intro conjI allI impI)
  fix r assume "map_of (rooms st) roomId = Some r"
  then show "createRoom routerOutcome now roomId st = (Inr r, st)"
    by (simp add: createRoom_atomic)
next
  assume absent: "map_of (rooms st) roomId = None"
  let ?room = "\<lparr>room_id = roomId, room_router = rt, room_peers = [], room_createdAt = now\<rparr>"
  let ?st' = "st\<lparr>engineLog := engineLog st @ [CreateRouter], rooms := rooms st @ [(roomId, ?room)]\<rparr>"
  show first: "createRoom (Inr rt) now roomId st = (Inr ?room, ?st')"
    using absent by (simp add: createRoom_atomic engineCall_def update_absent Let_def)
  have "map_of (rooms ?st') roomId = Some ?room"
    using absent by (simp add: map_add_def)
  then have "createRoom routerOutcome2 now2 roomId ?st' = (Inr ?room, ?st')"
    by (simp add: createRoom_atomic)
  then show "createRoom routerOutcome2 now2 roomId (snd (createRoom (Inr rt) now roomId st))
      = (Inr ?room, snd (createRoom (Inr rt) now roomId st))"
    by (simp add: first)
qed

lemma createRoom_router_failure:
  "map_of (rooms st) roomId = None \<Longrightarrow>
     createRoom (Inl e) now roomId st = (Inl e, st\<lparr>engineLog := engineLog st @ [CreateRouter]\<rparr>)"
  by (simp add: createRoom_atomic engineCall_def)

text \<open>
  Claim C6. With two \<open>createRoom\<close> calls for the same absent room id in flight, the
  \<open>has\<close> test of the second runs before the \<open>set\<close> of the first: both calls find no room,
  both ask the engine for a router, and the second \<open>set\<close> replaces the room the first one
  registered. A peer added to the first room in between is gone from the registry.
\<close>

theorem createRoom_two_in_flight:
  assumes absent: "map_of (rooms st) roomId = None"
    and st1: "st1 = snd (createRoom_begin roomId st)"
    and st2: "st2 = snd (createRoom_begin roomId st1)"
    and st3: "st3 = snd (createRoom_resume (Inr r1) now1 roomId st2)"
    and st4: "st4 = snd (addPeer roomId peerId userId username st3)"
    and st5: "st5 = snd (createRoom_resume (Inr r2) now2 roomId st4)"
  shows "fst (createRoom_begin roomId st) = None
    \<and> fst (createRoom_begin roomId st1) = None
    \<and> engineLog st5 = engineLog st @ [CreateRouter, CreateRouter]
    \<and> fst (createRoom_resume (Inr r1) now1 roomId st2)
        = Inr \<lparr>room_id = roomId, room_router = r1, room_peers = [], room_createdAt = now1\<rparr>
    \<and> getPeer roomId peerId st4
        = Some \<lparr>peer_id = peerId, peer_userId = userId, peer_username = username,
                 peer_transports = [], peer_producers = [], peer_consumers = []\<rparr>
    \<and> fst (createRoom_resume (Inr r2) now2 roomId st4)
        = Inr \<lparr>room_id = roomId, room_router = r2, room_peers = [], room_createdAt = now2\<rparr>
    \<and> map_of (rooms st5) roomId
        = Some \<lparr>room_id = roomId, room_router = r2, room_peers = [], room_createdAt = now2\<rparr>
    \<and> getPeer roomId peerId st5 = None"
proof -
  let ?room1 = "\<lparr>room_id = roomId, room_router = r1, room_peers = [], room_createdAt = now1\<rparr>"
  let ?room2 = "\<lparr>room_id = roomId, room_router = r2, room_peers = [], room_createdAt = now2\<rparr>"
  let ?p = "\<lparr>peer_id = peerId, peer_userId = userId, peer_username = username,
                 peer_transports = [], peer_producers = [], peer_consumers = []\<rparr>"
  have b1: "createRoom_begin roomId st = (None, engineCall CreateRouter st)"
    using absent by (simp add: createRoom_begin_def)
  have s1: "st1 = engineCall CreateRouter st" by (simp add: st1 b1)
  have absent1: "map_of (rooms st1) roomId = None"
    using absent by (simp add: s1 engineCall_def)
  have b2: "createRoom_begin roomId st1 = (None, engineCall CreateRouter st1)"
    using absent1 by (simp add: createRoom_begin_def)
  have s2: "st2 = engineCall CreateRouter st1" by (simp add: st2 b2)
  have log2: "engineLog st2 = engineLog st @ [CreateRouter, CreateRouter]"
    by (simp add: s2 s1 engineCall_def)
  have r3: "createRoom_resume (Inr r1) now1 roomId st2
      = (Inr ?room1, st2\<lparr>rooms := AList.update roomId ?room1 (rooms st2)\<rparr>)"
    by (simp add: createRoom_resume_def Let_def)
  have s3: "st3 = st2\<lparr>rooms := AList.update roomId ?room1 (rooms st2)\<rparr>" by (simp add: st3 r3)
  have in3: "map_of (rooms st3) roomId = Some ?room1"
    by (simp add: s3 map_of_update_same)
  have s4: "st4 = st3\<lparr>rooms := AList.update roomId
      (?room1\<lparr>room_peers := AList.update peerId ?p (room_peers ?room1)\<rparr>) (rooms st3)\<rparr>"
    using in3 by (simp add: st4 addPeer_def Let_def)
  have peer4: "getPeer roomId peerId st4 = Some ?p"
    by (simp add: s4 getPeer_def map_of_update_same)
  have r5: "createRoom_resume (Inr r2) now2 roomId st4
      = (Inr ?room2, st4\<lparr>rooms := AList.update roomId ?room2 (rooms st4)\<rparr>)"
    by (simp add: createRoom_resume_def Let_def)
  have s5: "st5 = st4\<lparr>rooms := AList.update roomId ?room2 (rooms st4)\<rparr>" by (simp add: st5 r5)
  have in5: "map_of (rooms st5) roomId = Some ?room2"
    by (simp add: s5 map_of_update_same)
  have log5: "engineLog st5 = engineLog st @ [CreateRouter, CreateRouter]"
    by (simp add: s5 s4 s3 log2)
  have peer5: "getPeer roomId peerId st5 = None"
    by (simp add: getPeer_def in5)
  from b1 b2 log5 r3 peer4 r5 in5 peer5 show ?thesis by simp
qed

text \<open>
  Claim C4, as amended. \<open>addPeer\<close> on an unknown room id fails with the error
  \<open>Room <id> not found\<close> and leaves the registry unchanged. On a known room id it never
  fails: it stores a fresh peer with empty maps under the peer id, replacing whatever entry
  was stored there before.
\<close>

theorem addPeer_room_missing_or_overwrite:
  "(map_of (rooms st) roomId = None \<longrightarrow>
      addPeer roomId peerId userId username st
        = (Inl (Error (''Room '' @ roomId @ '' not found'')), st))
   \<and> (\<forall>r. map_of (rooms st) roomId = Some r \<longrightarrow>
      addPeer roomId peerId userId username st
        = (Inr \<lparr>peer_id = peerId, peer_userId = userId, peer_username = username,
                 peer_transports = [], peer_producers = [], peer_consumers = []\<rparr>,
           st\<lparr>rooms := AList.update roomId
                  (r\<lparr>room_peers := AList.update peerId
                        \<lparr>peer_id = peerId, peer_userId = userId, peer_username = username,
                          peer_transports = [], peer_producers = [], peer_consumers = []\<rparr>
                        (room_peers r)\<rparr>)
                  (rooms st)\<rparr>)
      \<and> getPeer roomId peerId (snd (addPeer roomId peerId userId username st))
        = Some \<lparr>peer_id = peerId, peer_userId = userId, peer_username = username,
                 peer_transports = [], peer_producers = [], peer_consumers = []\<rparr>)"
proof (intro conjI allI impI)
  assume "map_of (rooms st) roomId = None"
  then show "addPeer roomId peerId userId username st
        = (Inl (Error (''Room '' @ roomId @ '' not found'')), st)"
    by (simp add: addPeer_def)
next
  fix r assume r: "map_of (rooms st) roomId = Some r"
  let ?p = "\<lparr>peer_id = peerId, peer_userId = userId, peer_username = username,
                 peer_transports = [], peer_producers = [], peer_consumers = []\<rparr>"
  let ?st' = "st\<lparr>rooms := AList.update roomId
                  (r\<lparr>room_peers := AList.update peerId ?p (room_peers r)\<rparr>) (rooms st)\<rparr>"
  show eq: "addPeer roomId peerId userId username st = (Inr ?p, ?st')"
    using r by (simp add: addPeer_def Let_def)
  show "getPeer roomId peerId (snd (addPeer roomId peerId userId username st)) = Some ?p"
    unfolding eq by (simp add: getPeer_def map_of_update_same)
qed

lemma getOtherPeersProducers_set:
  assumes "map_of (rooms st) roomId = Some r"
  shows "set (getOtherPeersProducers roomId x st)
     = {producerEntry k q pr | k q pr j. (k, q) \<in> set (room_peers r) \<and> k \<noteq> x
          \<and> (j, pr) \<in> set (peer_producers q)}"
  using assms by (fastforce simp: getOtherPeersProducers_def split: if_splits)

text \<open>
  Claim C5. Every entry of \<open>getOtherPeersProducers roomId x\<close> carries a peer id other
  than \<open>x\<close> and is built, field by field, from a producer in the producers map of the peer
  stored under that peer id in the room: \<open>producerId\<close> and \<open>kind\<close> from the producer,
  \<open>userId\<close> and \<open>username\<close> from the peer. No entry attributed to \<open>x\<close> itself, whatever
  its producer, is in the list. For an unknown room id the list is empty.
\<close>

theorem getOtherPeersProducers_excludes_own:
  "(\<forall>e \<in> set (getOtherPeersProducers roomId x st).
       entry_peerId e \<noteq> x
       \<and> (\<exists>r q j pr. map_of (rooms st) roomId = Some r
             \<and> (entry_peerId e, q) \<in> set (room_peers r)
             \<and> (j, pr) \<in> set (peer_producers q)
             \<and> e = \<lparr>entry_producerId = producer_id pr, entry_peerId = entry_peerId e,
                     entry_userId = peer_userId q, entry_username = peer_username q,
                     entry_kind = producer_kind pr\<rparr>))
   \<and> (\<forall>q pr. \<lparr>entry_producerId = producer_id pr, entry_peerId = x,
                entry_userId = peer_userId q, entry_username = peer_username q,
                entry_kind = producer_kind pr\<rparr> \<notin> set (getOtherPeersProducers roomId x st))
   \<and> (map_of (rooms st) roomId = None \<longrightarrow> getOtherPeersProducers roomId x st = [])"
proof (intro conjI ballI impI allI)
  fix e assume e: "e \<in> set (getOtherPeersProducers roomId x st)"
  then obtain r where r: "map_of (rooms st) roomId = Some r"
    by (cases "map_of (rooms st) roomId") (auto simp: getOtherPeersProducers_def)
  from e obtain k q pr j where kq: "(k, q) \<in> set (room_peers r)" and kx: "k \<noteq> x"
    and pr: "(j, pr) \<in> set (peer_producers q)" and ee: "e = producerEntry k q pr"
    unfolding getOtherPeersProducers_set [OF r] by blast
  from ee have pk: "entry_peerId e = k" by (simp add: producerEntry_def)
  show "entry_peerId e \<noteq> x" using pk kx by simp
  show "\<exists>r q j pr. map_of (rooms st) roomId = Some r
             \<and> (entry_peerId e, q) \<in> set (room_peers r)
             \<and> (j, pr) \<in> set (peer_producers q)
             \<and> e = \<lparr>entry_producerId = producer_id pr, entry_peerId = entry_peerId e,
                     entry_userId = peer_userId q, entry_username = peer_username q,
                     entry_kind = producer_kind pr\<rparr>"
    using r kq pr ee pk by (auto simp: producerEntry_def)
next
  fix q pr
  show "\<lparr>entry_producerId = producer_id pr, entry_peerId = x,
          entry_userId = peer_userId q, entry_username = peer_username q,
          entry_kind = producer_kind pr\<rparr> \<notin> set (getOtherPeersProducers roomId x st)"
  proof (cases "map_of (rooms st) roomId")
    case None
    then show ?thesis by (simp add: getOtherPeersProducers_def)
  next
    case (Some r)
    show ?thesis
      unfolding getOtherPeersProducers_set [OF Some] by (auto simp: producerEntry_def)
  qed
next
  assume "map_of (rooms st) roomId = None"
  then show "getOtherPeersProducers roomId x st = []"
    by (simp add: getOtherPeersProducers_def)
qed

text \<open>
  Claim C10, as amended. A peer returned by a successful \<open>addPeer\<close> has empty
  transports, producers and consumers maps. When the peer id was not yet in the room, the
  call changes no result of \<open>getOtherPeersProducers\<close>, appends exactly one entry to the
  roster of that room and leaves every other room's roster alone.
\<close>

theorem addPeer_new_peer_is_empty:
  assumes ok: "addPeer roomId peerId userId username st = (Inr p, st')"
  shows "peer_transports p = [] \<and> peer_producers p = [] \<and> peer_consumers p = []
    \<and> (getPeer roomId peerId st = None \<longrightarrow>
         (\<forall>rid x. getOtherPeersProducers rid x st' = getOtherPeersProducers rid x st)
         \<and> getRoomPeers roomId st' = getRoomPeers roomId st
              @ [\<lparr>roster_peerId = peerId, roster_userId = userId, roster_username = username\<rparr>]
         \<and> (\<forall>rid. rid \<noteq> roomId \<longrightarrow> getRoomPeers rid st' = getRoomPeers rid st))"
proof -
  from ok obtain r where r: "map_of (rooms st) roomId = Some r"
    by (cases "map_of (rooms st) roomId") (auto simp: addPeer_def)
  let ?p = "\<lparr>peer_id = peerId, peer_userId = userId, peer_username = username,
                 peer_transports = [], peer_producers = [], peer_consumers = []\<rparr>"
  from ok r have p: "p = ?p"
    and st': "st' = st\<lparr>rooms := AList.update roomId
                  (r\<lparr>room_peers := AList.update peerId ?p (room_peers r)\<rparr>) (rooms st)\<rparr>"
    by (auto simp: addPeer_def Let_def)
  have empty: "peer_transports p = [] \<and> peer_producers p = [] \<and> peer_consumers p = []"
    by (simp add: p)
  have fresh: "(\<forall>rid x. getOtherPeersProducers rid x st' = getOtherPeersProducers rid x st)
         \<and> getRoomPeers roomId st' = getRoomPeers roomId st
              @ [\<lparr>roster_peerId = peerId, roster_userId = userId, roster_username = username\<rparr>]
         \<and> (\<forall>rid. rid \<noteq> roomId \<longrightarrow> getRoomPeers rid st' = getRoomPeers rid st)"
    if absent: "getPeer roomId peerId st = None"
  proof -
    from absent r have np: "map_of (room_peers r) peerId = None"
      by (simp add: getPeer_def)
    then have upd: "AList.update peerId ?p (room_peers r) = room_peers r @ [(peerId, ?p)]"
      by (rule update_absent)
    have same: "map_of (rooms st') roomId = Some (r\<lparr>room_peers := room_peers r @ [(peerId, ?p)]\<rparr>)"
      by (simp add: st' upd map_of_update_same)
    have other: "map_of (rooms st') rid = map_of (rooms st) rid" if "rid \<noteq> roomId" for rid
      using that by (simp add: st' map_of_update_other)
    have prods: "getOtherPeersProducers rid x st' = getOtherPeersProducers rid x st" for rid x
    proof (cases "rid = roomId")
      case True
      then show ?thesis using r same by (simp add: getOtherPeersProducers_def)
    next
      case False
      then show ?thesis using other by (simp add: getOtherPeersProducers_def)
    qed
    have roster: "getRoomPeers roomId st' = getRoomPeers roomId st
              @ [\<lparr>roster_peerId = peerId, roster_userId = userId, roster_username = username\<rparr>]"
      using r same by (simp add: getRoomPeers_def)
    have rest: "getRoomPeers rid st' = getRoomPeers rid st" if "rid \<noteq> roomId" for rid
      using other [OF that] by (simp add: getRoomPeers_def)
    from prods roster rest show ?thesis by blast
  qed
  from empty fresh show ?thesis by blast
qed

lemma removePeer_absent: "getPeer roomId peerId st = None \<Longrightarrow> removePeer roomId peerId st = st"
  by (auto simp: removePeer_def getPeer_def split: option.splits)

lemma getPeer_removePeer: "getPeer roomId peerId (removePeer roomId peerId st) = None"
  by (auto simp: removePeer_def getPeer_def Let_def map_of_update_same delete_conv' split: option.splits)

lemma removePeer_twice: "removePeer roomId peerId (removePeer roomId peerId st) = removePeer roomId peerId st"
  by (rule removePeer_absent) (rule getPeer_removePeer)

text \<open>
  Removing a peer from the registry is idempotent: the second \<open>removePeer\<close> finds no
  peer, closes no transport and returns the registry as it is.
\<close>

theorem removePeer_idempotent:
  "removePeer roomId peerId (removePeer roomId peerId st) = removePeer roomId peerId st
   \<and> getPeer roomId peerId (removePeer roomId peerId st) = None"
  by (simp add: removePeer_absent getPeer_removePeer)

section \<open>Properties of the signaling handlers\<close>

lemma members_socketLeave:
  "filter (\<lambda>m. m \<noteq> sid) (members (socketLeave sid roomId st) roomId)
     = filter (\<lambda>m. m \<noteq> sid) (members st roomId)"
  by (auto simp: members_def socketLeave_def map_of_update_same delete_conv' split: option.splits)

lemma socketLeave_other_fields:
  "srv_registry (socketLeave sid roomId st) = srv_registry st"
  "srv_emitted (socketLeave sid roomId st) = srv_emitted st"
  by (auto simp: socketLeave_def split: option.splits)

lemma socketLeave_twice: "socketLeave sid roomId (socketLeave sid roomId st) = socketLeave sid roomId st"
  by (auto simp: socketLeave_def map_of_update_same delete_conv' split: option.splits)

lemma members_registry_upd: "members (st\<lparr>srv_registry := r\<rparr>) roomId = members st roomId"
  by (simp add: members_def)

lemma emitToRoom_fields:
  "srv_registry (emitToRoom sid roomId ev st) = srv_registry st"
  "srv_adapter (emitToRoom sid roomId ev st) = srv_adapter st"
  "srv_emitted (emitToRoom sid roomId ev st) = srv_emitted st
     @ [\<lparr>emit_room = roomId, emit_recipients = filter (\<lambda>m. m \<noteq> sid) (members st roomId),
         emit_event = ev\<rparr>]"
  "members (emitToRoom sid roomId ev st) rid = members st rid"
  by (simp_all add: emitToRoom_def members_def)

lemma handleDisconnect_bound:
  assumes "socket_roomId sock = Some roomId"
  shows "srv_registry (handleDisconnect sock st) = removePeer roomId (socket_id sock) (srv_registry st)"
    and "srv_emitted (handleDisconnect sock st) = srv_emitted st
     @ [\<lparr>emit_room = roomId,
         emit_recipients = filter (\<lambda>m. m \<noteq> socket_id sock) (members st roomId),
         emit_event = PeerLeft (socket_id sock)\<rparr>]"
    and "srv_adapter (handleDisconnect sock st) = srv_adapter (socketLeave (socket_id sock) roomId st)"
    and "filter (\<lambda>m. m \<noteq> socket_id sock) (members (handleDisconnect sock st) roomId)
       = filter (\<lambda>m. m \<noteq> socket_id sock) (members st roomId)"
proof -
  let ?sid = "socket_id sock"
  let ?st2 = "emitToRoom ?sid roomId (PeerLeft ?sid)
                (st\<lparr>srv_registry := removePeer roomId ?sid (srv_registry st)\<rparr>)"
  have hd: "handleDisconnect sock st = socketLeave ?sid roomId ?st2"
    using assms by (simp add: handleDisconnect_def Let_def)
  show "srv_registry (handleDisconnect sock st) = removePeer roomId ?sid (srv_registry st)"
    unfolding hd by (simp add: socketLeave_other_fields emitToRoom_fields)
  show "srv_emitted (handleDisconnect sock st) = srv_emitted st
     @ [\<lparr>emit_room = roomId, emit_recipients = filter (\<lambda>m. m \<noteq> ?sid) (members st roomId),
         emit_event = PeerLeft ?sid\<rparr>]"
    unfolding hd by (simp add: socketLeave_other_fields emitToRoom_fields members_registry_upd)
  show "srv_adapter (handleDisconnect sock st) = srv_adapter (socketLeave ?sid roomId st)"
    unfolding hd by (auto simp: socketLeave_def emitToRoom_def split: option.splits)
  show "filter (\<lambda>m. m \<noteq> ?sid) (members (handleDisconnect sock st) roomId)
       = filter (\<lambda>m. m \<noteq> ?sid) (members st roomId)"
    unfolding hd by (simp add: members_socketLeave emitToRoom_fields members_registry_upd)
qed

text \<open>
  Claim C1. For a socket bound to a room, \<open>leaveRoom\<close> followed by \<open>disconnect\<close> emits
  the \<open>peerLeft\<close> broadcast twice, both times to the same remaining members, because
  \<open>handleDisconnect\<close> never clears \<open>socket.data.roomId\<close>. The second run leaves the
  registry and the adapter as the first run left them.
\<close>

theorem handleDisconnect_twice_broadcasts_twice:
  assumes "socket_roomId sock = Some roomId"
  shows "srv_emitted (on_disconnect sock (on_leaveRoom sock st))
      = srv_emitted st
        @ [\<lparr>emit_room = roomId,
             emit_recipients = filter (\<lambda>m. m \<noteq> socket_id sock) (members st roomId),
             emit_event = PeerLeft (socket_id sock)\<rparr>,
           \<lparr>emit_room = roomId,
             emit_recipients = filter (\<lambda>m. m \<noteq> socket_id sock) (members st roomId),
             emit_event = PeerLeft (socket_id sock)\<rparr>]
    \<and> srv_registry (on_disconnect sock (on_leaveRoom sock st))
      = srv_registry (on_leaveRoom sock st)
    \<and> srv_adapter (on_disconnect sock (on_leaveRoom sock st))
      = srv_adapter (on_leaveRoom sock st)"
proof -
  define st1 where "st1 = handleDisconnect sock st"
  note first = handleDisconnect_bound [OF assms, of st, folded st1_def]
  note second = handleDisconnect_bound [OF assms, of st1]
  have a: "srv_emitted (handleDisconnect sock st1) = srv_emitted st
        @ [\<lparr>emit_room = roomId,
             emit_recipients = filter (\<lambda>m. m \<noteq> socket_id sock) (members st roomId),
             emit_event = PeerLeft (socket_id sock)\<rparr>,
           \<lparr>emit_room = roomId,
             emit_recipients = filter (\<lambda>m. m \<noteq> socket_id sock) (members st roomId),
             emit_event = PeerLeft (socket_id sock)\<rparr>]"
    by (simp add: second(2) first(2) first(4))
  have b: "srv_registry (handleDisconnect sock st1) = srv_registry st1"
    by (simp add: second(1) first(1) removePeer_twice)
  have "srv_adapter (handleDisconnect sock st1)
      = srv_adapter (socketLeave (socket_id sock) roomId (socketLeave (socket_id sock) roomId st))"
    unfolding second(3)
    by (auto simp: socketLeave_def first(3) map_of_update_same delete_conv' split: option.splits)
  then have c: "srv_adapter (handleDisconnect sock st1) = srv_adapter st1"
    by (simp add: socketLeave_twice first(3))
  from a b c show ?thesis
    by (simp add: on_disconnect_def on_leaveRoom_def st1_def)
qed

text \<open>
  Claim C2, as amended. A \<open>joinRoom\<close> request whose three fields are non-empty strings
  and whose room id ends in a timestamp more than 24 hours before the clock reading is
  answered with \<open>Meeting link has expired (24h limit)\<close>; the socket and the whole server
  state, registry included, stay as they were.
\<close>

theorem on_joinRoom_expired:
  assumes fields: "roomId \<noteq> []" "userId \<noteq> []" "username \<noteq> []"
    and ts: "parseInt (last (split CHR ''-'' roomId)) = Num ts"
    and old: "of_int now - ts > 24 * 60 * 60 * 1000"
  shows "on_joinRoom now routerOutcome createdNow
           \<lparr>data_roomId = Str roomId, data_userId = Str userId, data_username = Str username\<rparr>
           sock st
         = (ErrorReply ''Meeting link has expired (24h limit)'', sock, st)"
proof -
  have "isMeetingExpired now (Str roomId)"
    using ts old by (simp add: twentyFourHours_def)
  with fields show ?thesis
    by (simp add: on_joinRoom_atomic del: isMeetingExpired.simps)
qed

lemma on_joinRoom_missing_field:
  assumes "\<not> truthy (data_roomId d) \<or> \<not> truthy (data_userId d) \<or> \<not> truthy (data_username d)"
  shows "on_joinRoom now routerOutcome createdNow d sock st
           = (ErrorReply ''Missing required fields'', sock, st)"
  using assms by (simp add: on_joinRoom_atomic del: isMeetingExpired.simps)

lemma on_createRoom_failure:
  assumes "map_of (rooms (srv_registry st)) (generateMeetingId randomBytes now) = None"
  shows "on_createRoom randomBytes now (Inl e) createdNow st
           = (ErrorReply ''Failed to create room'',
              st\<lparr>srv_registry := engineCall CreateRouter (srv_registry st)\<rparr>)"
  using assms by (simp add: on_createRoom_def createRoom_atomic Let_def)

lemma on_joinRoom_router_failure:
  assumes fields: "roomId \<noteq> []" "userId \<noteq> []" "username \<noteq> []"
    and fresh: "\<not> isMeetingExpired now (Str roomId)"
    and absent: "map_of (rooms (srv_registry st)) roomId = None"
  shows "on_joinRoom now (Inl e) createdNow
           \<lparr>data_roomId = Str roomId, data_userId = Str userId, data_username = Str username\<rparr>
           sock st
         = (ErrorReply ''Failed to join room'', sock,
            st\<lparr>srv_registry := engineCall CreateRouter (srv_registry st)\<rparr>)"
  using assms
  by (simp add: on_joinRoom_atomic getRoom_def createRoom_atomic Let_def del: isMeetingExpired.simps)

lemma on_createWebRtcTransport_failure:
  assumes room: "map_of (rooms (srv_registry st)) roomId = Some r"
    and peer: "map_of (room_peers r) (socket_id sock) = Some p"
  shows "on_createWebRtcTransport (Inl e) roomId sock st
           = (ErrorReply ''Failed to create transport'',
              st\<lparr>srv_registry := engineCall (RouterCreateWebRtcTransport (router_id (room_router r)))
                                   (srv_registry st)\<rparr>)"
  using assms by (simp add: on_createWebRtcTransport_def createWebRtcTransport_def Let_def)

lemma on_connectTransport_failure:
  assumes room: "map_of (rooms (srv_registry st)) roomId = Some r"
    and peer: "map_of (room_peers r) (socket_id sock) = Some p"
    and tr: "map_of (peer_transports p) transportId = Some t"
  shows "on_connectTransport (Inl e) roomId transportId dtlsParameters sock st
           = (ErrorReply ''Failed to connect transport'',
              st\<lparr>srv_registry := engineCall (TransportConnect (transport_id t) dtlsParameters)
                                   (srv_registry st)\<rparr>)"
proof -
  have gp: "getPeer roomId (socket_id sock) (srv_registry st) = Some p"
    using room peer by (simp add: getPeer_def)
  have "connectTransport (Inl e) roomId (socket_id sock) transportId dtlsParameters
             (srv_registry st)
           = (Inl e, engineCall (TransportConnect (transport_id t) dtlsParameters) (srv_registry st))"
    using gp tr by (simp add: connectTransport_def)
  then show ?thesis by (simp add: on_connectTransport_def)
qed

lemma on_produce_failure:
  assumes room: "map_of (rooms (srv_registry st)) roomId = Some r"
    and peer: "map_of (room_peers r) (socket_id sock) = Some p"
    and tr: "map_of (peer_transports p) transportId = Some t"
  shows "on_produce (Inl e) roomId transportId kind rtpParameters sock st
           = (ErrorReply ''Failed to produce'',
              st\<lparr>srv_registry := engineCall (TransportProduce (transport_id t) kind rtpParameters)
                                   (srv_registry st)\<rparr>)"
proof -
  have gp: "getPeer roomId (socket_id sock) (srv_registry st) = Some p"
    using room peer by (simp add: getPeer_def)
  have "produce (Inl e) roomId (socket_id sock) transportId kind rtpParameters (srv_registry st)
           = (Inl e, engineCall (TransportProduce (transport_id t) kind rtpParameters)
                       (srv_registry st))"
    using gp tr by (simp add: produce_def)
  then show ?thesis by (simp add: on_produce_def)
qed

lemma on_consume_failure:
  assumes room: "map_of (rooms (srv_registry st)) roomId = Some r"
    and peer: "map_of (room_peers r) (socket_id sock) = Some p"
    and tr: "map_of (peer_transports p) transportId = Some t"
  shows "on_consume True (Inl e) roomId transportId producerId rtpCapabilities sock st
           = (ErrorReply ''Failed to consume'',
              st\<lparr>srv_registry :=
                   engineCall (TransportConsume (transport_id t) producerId rtpCapabilities)
                     (engineCall (RouterCanConsume (router_id (room_router r)) producerId
                                    rtpCapabilities)
                        (srv_registry st))\<rparr>)"
proof -
  have gp: "getPeer roomId (socket_id sock) (srv_registry st) = Some p"
    using room peer by (simp add: getPeer_def)
  have "consume True (Inl e) roomId (socket_id sock) transportId producerId rtpCapabilities
              (srv_registry st)
           = (Inl e, engineCall (TransportConsume (transport_id t) producerId rtpCapabilities)
                       (engineCall (RouterCanConsume (router_id (room_router r)) producerId
                                      rtpCapabilities)
                          (srv_registry st)))"
    using room gp tr by (simp add: consume_def)
  then show ?thesis by (simp add: on_consume_def)
qed

text \<open>
  Claim C8, as amended. When the engine call of a handler is reached and rejects with an
  error \<open>e\<close>, the reply is the handler's own fixed message (\<open>Failed to create room\<close>,
  \<open>Failed to join room\<close>, \<open>Failed to create transport\<close>, \<open>Failed to connect transport\<close>,
  \<open>Failed to produce\<close>, \<open>Failed to consume\<close>) whatever \<open>e\<close> says; the engine log gains
  the calls of that one attempt and no other, and nothing else in the server state changes.
\<close>

theorem engine_failure_fixed_message:
  "(map_of (rooms (srv_registry st)) (generateMeetingId randomBytes now) = None \<longrightarrow>
      on_createRoom randomBytes now (Inl e) createdNow st
        = (ErrorReply ''Failed to create room'',
           st\<lparr>srv_registry := engineCall CreateRouter (srv_registry st)\<rparr>))
   \<and> (roomId \<noteq> [] \<and> userId \<noteq> [] \<and> username \<noteq> [] \<and> \<not> isMeetingExpired now (Str roomId)
        \<and> map_of (rooms (srv_registry st)) roomId = None \<longrightarrow>
      on_joinRoom now (Inl e) createdNow
          \<lparr>data_roomId = Str roomId, data_userId = Str userId, data_username = Str username\<rparr>
          sock st
        = (ErrorReply ''Failed to join room'', sock,
           st\<lparr>srv_registry := engineCall CreateRouter (srv_registry st)\<rparr>))
   \<and> (\<forall>r p. map_of (rooms (srv_registry st)) roomId = Some r
          \<and> map_of (room_peers r) (socket_id sock) = Some p \<longrightarrow>
      on_createWebRtcTransport (Inl e) roomId sock st
        = (ErrorReply ''Failed to create transport'',
           st\<lparr>srv_registry := engineCall (RouterCreateWebRtcTransport (router_id (room_router r)))
                                (srv_registry st)\<rparr>)
      \<and> (\<forall>t. map_of (peer_transports p) transportId = Some t \<longrightarrow>
          on_connectTransport (Inl e) roomId transportId dtlsParameters sock st
            = (ErrorReply ''Failed to connect transport'',
               st\<lparr>srv_registry := engineCall (TransportConnect (transport_id t) dtlsParameters)
                                    (srv_registry st)\<rparr>)
          \<and> on_produce (Inl e) roomId transportId kind rtpParameters sock st
            = (ErrorReply ''Failed to produce'',
               st\<lparr>srv_registry := engineCall (TransportProduce (transport_id t) kind rtpParameters)
                                    (srv_registry st)\<rparr>)
          \<and> on_consume True (Inl e) roomId transportId producerId rtpCapabilities sock st
            = (ErrorReply ''Failed to consume'',
               st\<lparr>srv_registry :=
                    engineCall (TransportConsume (transport_id t) producerId rtpCapabilities)
                      (engineCall (RouterCanConsume (router_id (room_router r)) producerId
                                     rtpCapabilities)
                         (srv_registry st))\<rparr>)))"
proof (intro conjI allI impI)
  assume "map_of (rooms (srv_registry st)) (generateMeetingId randomBytes now) = None"
  then show "on_createRoom randomBytes now (Inl e) createdNow st
        = (ErrorReply ''Failed to create room'',
           st\<lparr>srv_registry := engineCall CreateRouter (srv_registry st)\<rparr>)"
    by (rule on_createRoom_failure)
next
  assume "roomId \<noteq> [] \<and> userId \<noteq> [] \<and> username \<noteq> [] \<and> \<not> isMeetingExpired now (Str roomId)
        \<and> map_of (rooms (srv_registry st)) roomId = None"
  then show "on_joinRoom now (Inl e) createdNow
          \<lparr>data_roomId = Str roomId, data_userId = Str userId, data_username = Str username\<rparr>
          sock st
        = (ErrorReply ''Failed to join room'', sock,
           st\<lparr>srv_registry := engineCall CreateRouter (srv_registry st)\<rparr>)"
    by (intro on_joinRoom_router_failure) blast+
next
  fix r p
  assume rp: "map_of (rooms (srv_registry st)) roomId = Some r
          \<and> map_of (room_peers r) (socket_id sock) = Some p"
  then show "on_createWebRtcTransport (Inl e) roomId sock st
        = (ErrorReply ''Failed to create transport'',
           st\<lparr>srv_registry := engineCall (RouterCreateWebRtcTransport (router_id (room_router r)))
                                (srv_registry st)\<rparr>)"
    by (intro on_createWebRtcTransport_failure) blast+
  fix t
  assume t: "map_of (peer_transports p) transportId = Some t"
  from rp t show "on_connectTransport (Inl e) roomId transportId dtlsParameters sock st
            = (ErrorReply ''Failed to connect transport'',
               st\<lparr>srv_registry := engineCall (TransportConnect (transport_id t) dtlsParameters)
                                    (srv_registry st)\<rparr>)"
    by (intro on_connectTransport_failure) blast+
  from rp t show "on_produce (Inl e) roomId transportId kind rtpParameters sock st
            = (ErrorReply ''Failed to produce'',
               st\<lparr>srv_registry := engineCall (TransportProduce (transport_id t) kind rtpParameters)
                                    (srv_registry st)\<rparr>)"
    by (intro on_produce_failure) blast+
  from rp t show "on_consume True (Inl e) roomId transportId producerId rtpCapabilities sock st
            = (ErrorReply ''Failed to consume'',
               st\<lparr>srv_registry :=
                    engineCall (TransportConsume (transport_id t) producerId rtpCapabilities)
                      (engineCall (RouterCanConsume (router_id (room_router r)) producerId
                                     rtpCapabilities)
                         (srv_registry st))\<rparr>)"
    by (intro on_consume_failure) blast+
qed

section \<open>The worked scenario, evaluated\<close>

lemmas registry_defs = createRoom_atomic getRoom_def addPeer_def getPeer_def removePeer_def storePeer_def
  engineCall_def getRoomPeers_def getOtherPeersProducers_def producerEntry_def
  createWebRtcTransport_def connectTransport_def produce_def consume_def

lemmas server_defs = members_def socketJoin_def socketLeave_def emitToRoom_def

lemma exampleRoomId_not_Nil: "exampleRoomId \<noteq> []"
  by (simp add: exampleRoomId_def)

lemma example_not_expired:
  "\<not> isMeetingExpired 1700000001000 (Str exampleRoomId)"
  "\<not> isMeetingExpired 1700000002000 (Str exampleRoomId)"
  by (simp_all add: exampleRoomId_def parse_defs)

lemma aliceJoined_eq:
  "aliceJoined =
    (JoinSuccess [],
     \<lparr>socket_id = ''A'', socket_roomId = Some exampleRoomId, socket_userId = Some ''u1'',
       socket_username = Some ''Alice''\<rparr>,
     \<lparr>srv_registry = \<lparr>rooms = [(exampleRoomId, exampleRoom [(''A'', alicePeer)])],
                       engineLog = [CreateRouter]\<rparr>,
      srv_adapter = [(exampleRoomId, [''A''])],
      srv_emitted = [\<lparr>emit_room = exampleRoomId, emit_recipients = [],
                      emit_event = NewPeer ''A'' ''u1'' ''Alice''\<rparr>]\<rparr>)"
  unfolding aliceJoined_def on_joinRoom_atomic joinData_def newSocket_def emptyServer_def
    exampleRoom_def alicePeer_def
  using example_not_expired(1) exampleRoomId_not_Nil
  by (simp add: registry_defs server_defs Let_def del: isMeetingExpired.simps)

lemma aliceSocket_eq:
  "aliceSocket = \<lparr>socket_id = ''A'', socket_roomId = Some exampleRoomId, socket_userId = Some ''u1'',
       socket_username = Some ''Alice''\<rparr>"
  by (simp add: aliceSocket_def aliceJoined_eq)

lemma aliceOnly_eq:
  "aliceOnly =
     \<lparr>srv_registry = \<lparr>rooms = [(exampleRoomId, exampleRoom [(''A'', alicePeer)])],
                       engineLog = [CreateRouter]\<rparr>,
      srv_adapter = [(exampleRoomId, [''A''])],
      srv_emitted = [\<lparr>emit_room = exampleRoomId, emit_recipients = [],
                      emit_event = NewPeer ''A'' ''u1'' ''Alice''\<rparr>]\<rparr>"
  by (simp add: aliceOnly_def aliceJoined_eq)

lemma bobJoined_eq:
  "bobJoined =
    (JoinSuccess [\<lparr>roster_peerId = ''A'', roster_userId = ''u1'', roster_username = ''Alice''\<rparr>],
     \<lparr>socket_id = ''B'', socket_roomId = Some exampleRoomId, socket_userId = Some ''u2'',
       socket_username = Some ''Bob''\<rparr>,
     \<lparr>srv_registry =
        \<lparr>rooms = [(exampleRoomId, exampleRoom [(''A'', alicePeer), (''B'', bobPeer)])],
         engineLog = [CreateRouter]\<rparr>,
      srv_adapter = [(exampleRoomId, [''A'', ''B''])],
      srv_emitted = [\<lparr>emit_room = exampleRoomId, emit_recipients = [],
                      emit_event = NewPeer ''A'' ''u1'' ''Alice''\<rparr>,
                     \<lparr>emit_room = exampleRoomId, emit_recipients = [''A''],
                      emit_event = NewPeer ''B'' ''u2'' ''Bob''\<rparr>]\<rparr>)"
  unfolding bobJoined_def aliceJoined_eq on_joinRoom_atomic joinData_def newSocket_def
    exampleRoom_def alicePeer_def bobPeer_def
  using example_not_expired(2) exampleRoomId_not_Nil
  by (simp add: registry_defs server_defs Let_def del: isMeetingExpired.simps)

lemma bothJoined_eq:
  "bothJoined =
     \<lparr>srv_registry =
        \<lparr>rooms = [(exampleRoomId, exampleRoom [(''A'', alicePeer), (''B'', bobPeer)])],
         engineLog = [CreateRouter]\<rparr>,
      srv_adapter = [(exampleRoomId, [''A'', ''B''])],
      srv_emitted = [\<lparr>emit_room = exampleRoomId, emit_recipients = [],
                      emit_event = NewPeer ''A'' ''u1'' ''Alice''\<rparr>,
                     \<lparr>emit_room = exampleRoomId, emit_recipients = [''A''],
                      emit_event = NewPeer ''B'' ''u2'' ''Bob''\<rparr>]\<rparr>"
  by (simp add: bothJoined_def bobJoined_eq)

lemma withTransport_registry:
  "srv_registry withTransport =
     \<lparr>rooms = [(exampleRoomId,
         exampleRoom [(''A'', alicePeer\<lparr>peer_transports := [(''t1'', exampleTransport)]\<rparr>),
                      (''B'', bobPeer)])],
      engineLog = [CreateRouter, RouterCreateWebRtcTransport ''router1'']\<rparr>"
  unfolding withTransport_def on_createWebRtcTransport_def bothJoined_eq aliceSocket_eq
  by (simp add: registry_defs exampleRoom_def alicePeer_def exampleTransport_def exampleRouter_def
      Let_def)

lemma withTransport_lookup:
  "map_of (rooms (srv_registry withTransport)) exampleRoomId
     = Some (exampleRoom [(''A'', alicePeer\<lparr>peer_transports := [(''t1'', exampleTransport)]\<rparr>),
                          (''B'', bobPeer)])"
  "map_of (room_peers (exampleRoom [(''A'', alicePeer\<lparr>peer_transports := [(''t1'', exampleTransport)]\<rparr>),
                          (''B'', bobPeer)])) (socket_id aliceSocket)
     = Some (alicePeer\<lparr>peer_transports := [(''t1'', exampleTransport)]\<rparr>)"
  "map_of (peer_transports (alicePeer\<lparr>peer_transports := [(''t1'', exampleTransport)]\<rparr>)) ''t1''
     = Some exampleTransport"
  by (simp_all add: withTransport_registry exampleRoom_def aliceSocket_eq)

lemma producing_registry:
  "srv_registry producing =
     \<lparr>rooms = [(exampleRoomId,
         exampleRoom [(''A'', alicePeer\<lparr>peer_transports := [(''t1'', exampleTransport)],
                                       peer_producers := [(''prod1'', exampleProducer)]\<rparr>),
                      (''B'', bobPeer)])],
      engineLog = [CreateRouter, RouterCreateWebRtcTransport ''router1'',
                   TransportProduce ''t1'' ''video'' ''rtp'']\<rparr>"
  unfolding producing_def on_produce_def
  by (simp add: withTransport_registry emitToRoom_fields aliceSocket_eq registry_defs exampleRoom_def
      alicePeer_def exampleTransport_def exampleProducer_def Let_def)

lemma producing_lookup:
  "map_of (rooms (srv_registry producing)) exampleRoomId
     = Some (exampleRoom [(''A'', alicePeer\<lparr>peer_transports := [(''t1'', exampleTransport)],
                                       peer_producers := [(''prod1'', exampleProducer)]\<rparr>),
                      (''B'', bobPeer)])"
  by (simp add: producing_registry)

lemma producing_others:
  "getOtherPeersProducers exampleRoomId ''B'' (srv_registry producing)
     = [\<lparr>entry_producerId = ''prod1'', entry_peerId = ''A'', entry_userId = ''u1'',
         entry_username = ''Alice'', entry_kind = ''video''\<rparr>]"
  "getOtherPeersProducers exampleRoomId ''A'' (srv_registry producing) = []"
  by (simp_all add: getOtherPeersProducers_def producing_lookup exampleRoom_def alicePeer_def
      bobPeer_def exampleProducer_def producerEntry_def)

lemma rejoin_eval:
  "addPeer exampleRoomId ''A'' ''u1'' ''Alice'' (srv_registry producing)
     = (Inr alicePeer,
        \<lparr>rooms = [(exampleRoomId, exampleRoom [(''A'', alicePeer), (''B'', bobPeer)])],
         engineLog = [CreateRouter, RouterCreateWebRtcTransport ''router1'',
                      TransportProduce ''t1'' ''video'' ''rtp'']\<rparr>)"
  by (simp add: addPeer_def producing_registry exampleRoom_def alicePeer_def Let_def)

text \<open>
  The duplicate \<open>addPeer\<close> is reachable through the protocol: it is what a second
  \<open>joinRoom\<close> from Alice's own socket does.
\<close>

lemma rejoin_through_handler:
  "fst (on_joinRoom 1700000002000 (Inr exampleRouter) 1700000002000
          (joinData exampleRoomId ''u1'' ''Alice'') aliceSocket producing)
     = JoinSuccess [\<lparr>roster_peerId = ''B'', roster_userId = ''u2'', roster_username = ''Bob''\<rparr>]
   \<and> srv_registry (snd (snd (on_joinRoom 1700000002000 (Inr exampleRouter) 1700000002000
          (joinData exampleRoomId ''u1'' ''Alice'') aliceSocket producing)))
     = snd (addPeer exampleRoomId ''A'' ''u1'' ''Alice'' (srv_registry producing))"
  unfolding on_joinRoom_atomic joinData_def rejoin_eval
  using example_not_expired(2) exampleRoomId_not_Nil
  by (simp add: getRoom_def producing_lookup rejoin_eval socketJoin_def getRoomPeers_def
      emitToRoom_def aliceSocket_eq exampleRoom_def alicePeer_def bobPeer_def Let_def
      del: isMeetingExpired.simps)

lemma expiredRoomId_parse:
  "parseInt (last (split CHR ''-'' expiredRoomId)) = Num 1699910000000"
  by (simp add: expiredRoomId_def parse_defs)

text \<open>
  Claim C2 at a room id 25 hours old: with all fields present the reply is the expiry
  error and nothing changes.
\<close>

theorem on_joinRoom_expired_witness:
  "expiredRoomId \<noteq> [] \<and> ''u1'' \<noteq> [] \<and> ''Alice'' \<noteq> []
   \<and> parseInt (last (split CHR ''-'' expiredRoomId)) = Num 1699910000000
   \<and> rat_of_int 1700000000000 - 1699910000000 > 24 * 60 * 60 * 1000
   \<and> on_joinRoom 1700000000000 (Inr exampleRouter) 1700000000000
        \<lparr>data_roomId = Str expiredRoomId, data_userId = Str ''u1'', data_username = Str ''Alice''\<rparr>
        (newSocket ''A'') emptyServer
      = (ErrorReply ''Meeting link has expired (24h limit)'', newSocket ''A'', emptyServer)"
proof -
  have f: "expiredRoomId \<noteq> []" "''u1'' \<noteq> []" "''Alice'' \<noteq> []"
    by (simp_all add: expiredRoomId_def)
  have old: "rat_of_int 1700000000000 - 1699910000000 > 24 * 60 * 60 * 1000" by simp
  from f expiredRoomId_parse old on_joinRoom_expired [OF f expiredRoomId_parse old]
  show ?thesis by blast
qed

text \<open>
  Claim C2 as stated fails: the same 25 hours old room id with an empty \<open>userId\<close> is
  answered with \<open>Missing required fields\<close>, since the handler tests the fields first.
\<close>

theorem on_joinRoom_expired_missing_field_counterexample:
  "parseInt (last (split CHR ''-'' expiredRoomId)) = Num 1699910000000
   \<and> rat_of_int 1700000000000 - 1699910000000 > 24 * 60 * 60 * 1000
   \<and> fst (on_joinRoom 1700000000000 (Inr exampleRouter) 1700000000000
        \<lparr>data_roomId = Str expiredRoomId, data_userId = Str [], data_username = Str ''Bob''\<rparr>
        (newSocket ''B'') emptyServer)
      = ErrorReply ''Missing required fields''
   \<and> fst (on_joinRoom 1700000000000 (Inr exampleRouter) 1700000000000
        \<lparr>data_roomId = Str expiredRoomId, data_userId = Str [], data_username = Str ''Bob''\<rparr>
        (newSocket ''B'') emptyServer)
      \<noteq> ErrorReply ''Meeting link has expired (24h limit)''"
  by (simp add: expiredRoomId_parse on_joinRoom_atomic)

text \<open>
  Claim C8 in the scenario: the engine rejects the router of a first room, a further
  transport for Alice, and the connect, produce and consume calls on her transport \<open>t1\<close>.
\<close>

theorem engine_failure_fixed_message_witness:
  "map_of (rooms (srv_registry emptyServer))
       (generateMeetingId [0x0a, 0xff, 1, 2, 3, 4, 5, 6] 1700000000000) = None
   \<and> on_createRoom [0x0a, 0xff, 1, 2, 3, 4, 5, 6] 1700000000000 (Inl (Error ''worker closed''))
        1700000000000 emptyServer
      = (ErrorReply ''Failed to create room'',
         emptyServer\<lparr>srv_registry := engineCall CreateRouter (srv_registry emptyServer)\<rparr>)
   \<and> \<not> isMeetingExpired 1700000001000 (Str exampleRoomId)
   \<and> on_joinRoom 1700000001000 (Inl (Error ''worker closed'')) 1700000001000
        \<lparr>data_roomId = Str exampleRoomId, data_userId = Str ''u1'', data_username = Str ''Alice''\<rparr>
        (newSocket ''A'') emptyServer
      = (ErrorReply ''Failed to join room'', newSocket ''A'',
         emptyServer\<lparr>srv_registry := engineCall CreateRouter (srv_registry emptyServer)\<rparr>)
   \<and> map_of (rooms (srv_registry withTransport)) exampleRoomId
     = Some (exampleRoom [(''A'', alicePeer\<lparr>peer_transports := [(''t1'', exampleTransport)]\<rparr>),
                          (''B'', bobPeer)])
   \<and> on_createWebRtcTransport (Inl (Error ''no free port'')) exampleRoomId aliceSocket withTransport
      = (ErrorReply ''Failed to create transport'',
         withTransport\<lparr>srv_registry := engineCall (RouterCreateWebRtcTransport ''router1'')
                                          (srv_registry withTransport)\<rparr>)
   \<and> on_connectTransport (Inl (Error ''invalid DTLS fingerprint'')) exampleRoomId ''t1'' ''dtls''
        aliceSocket withTransport
      = (ErrorReply ''Failed to connect transport'',
         withTransport\<lparr>srv_registry := engineCall (TransportConnect ''t1'' ''dtls'')
                                          (srv_registry withTransport)\<rparr>)
   \<and> on_produce (Inl (Error ''unsupported codec'')) exampleRoomId ''t1'' ''video'' ''rtp''
        aliceSocket withTransport
      = (ErrorReply ''Failed to produce'',
         withTransport\<lparr>srv_registry := engineCall (TransportProduce ''t1'' ''video'' ''rtp'')
                                          (srv_registry withTransport)\<rparr>)
   \<and> on_consume True (Inl (Error ''unsupported codec'')) exampleRoomId ''t1'' ''prod1'' ''caps''
        aliceSocket withTransport
      = (ErrorReply ''Failed to consume'',
         withTransport\<lparr>srv_registry := engineCall (TransportConsume ''t1'' ''prod1'' ''caps'')
              (engineCall (RouterCanConsume ''router1'' ''prod1'' ''caps'')
                 (srv_registry withTransport))\<rparr>)"
proof -
  have none: "map_of (rooms (srv_registry emptyServer)) k = None" for k
    by (simp add: emptyServer_def)
  have ids: "transport_id exampleTransport = ''t1''"
    "router_id (room_router (exampleRoom ps)) = ''router1''" for ps
    by (simp_all add: exampleTransport_def exampleRoom_def exampleRouter_def)
  have f: "exampleRoomId \<noteq> [] \<and> ''u1'' \<noteq> [] \<and> ''Alice'' \<noteq> []
      \<and> \<not> isMeetingExpired 1700000001000 (Str exampleRoomId)
      \<and> map_of (rooms (srv_registry emptyServer)) exampleRoomId = None"
    using exampleRoomId_not_Nil example_not_expired(1) none by simp
  have rp: "map_of (rooms (srv_registry withTransport)) exampleRoomId
       = Some (exampleRoom [(''A'', alicePeer\<lparr>peer_transports := [(''t1'', exampleTransport)]\<rparr>),
                          (''B'', bobPeer)])
     \<and> map_of (room_peers (exampleRoom [(''A'', alicePeer\<lparr>peer_transports := [(''t1'', exampleTransport)]\<rparr>),
                          (''B'', bobPeer)])) (socket_id aliceSocket)
       = Some (alicePeer\<lparr>peer_transports := [(''t1'', exampleTransport)]\<rparr>)"
    using withTransport_lookup by blast
  note a = engine_failure_fixed_message
    [of emptyServer "[0x0a, 0xff, 1, 2, 3, 4, 5, 6]" 1700000000000 "Error ''worker closed''"
      1700000000000, THEN conjunct1, rule_format, OF none]
  note b = engine_failure_fixed_message
    [of emptyServer _ 1700000001000 "Error ''worker closed''" 1700000001000 exampleRoomId
      "''u1''" "''Alice''" "newSocket ''A''", THEN conjunct2, THEN conjunct1, rule_format, OF f]
  note c = engine_failure_fixed_message
    [of withTransport _ _ "Error ''no free port''" _ exampleRoomId _ _ aliceSocket,
     THEN conjunct2, THEN conjunct2, rule_format, OF rp, THEN conjunct1, unfolded ids]
  note d = engine_failure_fixed_message
    [of withTransport _ _ "Error ''invalid DTLS fingerprint''" _ exampleRoomId _ _ aliceSocket
      "''t1''" "''dtls''",
     THEN conjunct2, THEN conjunct2, rule_format, OF rp, THEN conjunct2, rule_format,
     OF withTransport_lookup(3), THEN conjunct1, unfolded ids]
  note e = engine_failure_fixed_message
    [of withTransport _ _ "Error ''unsupported codec''" _ exampleRoomId _ _ aliceSocket
      "''t1''" _ "''video''" "''rtp''" "''prod1''" "''caps''",
     THEN conjunct2, THEN conjunct2, rule_format, OF rp, THEN conjunct2, rule_format,
     OF withTransport_lookup(3), THEN conjunct2, unfolded ids]
  from none a example_not_expired(1) b withTransport_lookup(1) c d e show ?thesis by blast
qed

text \<open>
  Claim C8 as stated fails: the engine's message \<open>invalid DTLS fingerprint\<close> does not
  reach the client; the reply carries \<open>Failed to connect transport\<close>.
\<close>

theorem engine_error_message_counterexample:
  "engineLog (srv_registry (snd (on_connectTransport (Inl (Error ''invalid DTLS fingerprint''))
        exampleRoomId ''t1'' ''dtls'' aliceSocket withTransport)))
     = engineLog (srv_registry withTransport) @ [TransportConnect ''t1'' ''dtls'']
   \<and> fst (on_connectTransport (Inl (Error ''invalid DTLS fingerprint'')) exampleRoomId ''t1'' ''dtls''
        aliceSocket withTransport)
     = ErrorReply ''Failed to connect transport''
   \<and> fst (on_connectTransport (Inl (Error ''invalid DTLS fingerprint'')) exampleRoomId ''t1'' ''dtls''
        aliceSocket withTransport)
     \<noteq> ErrorReply ''invalid DTLS fingerprint''"
  unfolding on_connectTransport_failure [OF withTransport_lookup]
  by (simp add: engineCall_def exampleTransport_def)

text \<open>
  Claim C4 in the scenario: \<open>addPeer\<close> on the empty registry fails, and adding Bob to
  Alice's room stores his fresh peer.
\<close>

theorem addPeer_room_missing_or_overwrite_witness:
  "map_of (rooms (srv_registry emptyServer)) exampleRoomId = None
   \<and> addPeer exampleRoomId ''A'' ''u1'' ''Alice'' (srv_registry emptyServer)
       = (Inl (Error (''Room '' @ exampleRoomId @ '' not found'')), srv_registry emptyServer)
   \<and> map_of (rooms (srv_registry aliceOnly)) exampleRoomId
       = Some (exampleRoom [(''A'', alicePeer)])
   \<and> fst (addPeer exampleRoomId ''B'' ''u2'' ''Bob'' (srv_registry aliceOnly)) = Inr bobPeer
   \<and> getPeer exampleRoomId ''B'' (snd (addPeer exampleRoomId ''B'' ''u2'' ''Bob''
        (srv_registry aliceOnly))) = Some bobPeer"
proof -
  have none: "map_of (rooms (srv_registry emptyServer)) exampleRoomId = None"
    by (simp add: emptyServer_def)
  have some: "map_of (rooms (srv_registry aliceOnly)) exampleRoomId
       = Some (exampleRoom [(''A'', alicePeer)])"
    by (simp add: aliceOnly_eq)
  note th1 = addPeer_room_missing_or_overwrite
    [of "srv_registry emptyServer" exampleRoomId "''A''" "''u1''" "''Alice''", THEN conjunct1, rule_format, OF none]
  note th2 = addPeer_room_missing_or_overwrite
    [of "srv_registry aliceOnly" exampleRoomId "''B''" "''u2''" "''Bob''", THEN conjunct2, rule_format, OF some]
  from th2 have "fst (addPeer exampleRoomId ''B'' ''u2'' ''Bob'' (srv_registry aliceOnly))
      = Inr \<lparr>peer_id = ''B'', peer_userId = ''u2'', peer_username = ''Bob'',
                 peer_transports = [], peer_producers = [], peer_consumers = []\<rparr>"
    by simp
  then have a: "fst (addPeer exampleRoomId ''B'' ''u2'' ''Bob'' (srv_registry aliceOnly)) = Inr bobPeer"
    by (simp add: bobPeer_def)
  from th2 have b: "getPeer exampleRoomId ''B'' (snd (addPeer exampleRoomId ''B'' ''u2'' ''Bob''
        (srv_registry aliceOnly))) = Some bobPeer"
    unfolding bobPeer_def by blast
  from none th1 some a b show ?thesis by blast
qed

text \<open>
  Claim C4 as stated fails: adding peer \<open>A\<close> again while \<open>A\<close> is in the room does not
  fail, and the stored peer, which held a transport and a producer, is replaced by an empty
  one.
\<close>

theorem addPeer_duplicate_counterexample:
  "getPeer exampleRoomId ''A'' (srv_registry producing)
     = Some (alicePeer\<lparr>peer_transports := [(''t1'', exampleTransport)],
                        peer_producers := [(''prod1'', exampleProducer)]\<rparr>)
   \<and> fst (addPeer exampleRoomId ''A'' ''u1'' ''Alice'' (srv_registry producing)) = Inr alicePeer
   \<and> getPeer exampleRoomId ''A'' (snd (addPeer exampleRoomId ''A'' ''u1'' ''Alice''
        (srv_registry producing))) = Some alicePeer
   \<and> alicePeer \<noteq> alicePeer\<lparr>peer_transports := [(''t1'', exampleTransport)],
                              peer_producers := [(''prod1'', exampleProducer)]\<rparr>"
  unfolding rejoin_eval
  by (simp add: getPeer_def producing_lookup exampleRoom_def alicePeer_def)

text \<open>
  Claim C5 in the scenario: Bob sees Alice's one producer, and an unknown room gives the
  empty list.
\<close>

theorem getOtherPeersProducers_excludes_own_witness:
  "getOtherPeersProducers exampleRoomId ''B'' (srv_registry producing)
     = [\<lparr>entry_producerId = ''prod1'', entry_peerId = ''A'', entry_userId = ''u1'',
         entry_username = ''Alice'', entry_kind = ''video''\<rparr>]
   \<and> entry_peerId \<lparr>entry_producerId = ''prod1'', entry_peerId = ''A'', entry_userId = ''u1'',
         entry_username = ''Alice'', entry_kind = ''video''\<rparr> \<noteq> ''B''
   \<and> \<lparr>entry_producerId = ''prod1'', entry_peerId = ''A'', entry_userId = ''u1'',
         entry_username = ''Alice'', entry_kind = ''video''\<rparr>
       \<notin> set (getOtherPeersProducers exampleRoomId ''A'' (srv_registry producing))
   \<and> map_of (rooms (srv_registry producing)) ''no-such-room'' = None
   \<and> getOtherPeersProducers ''no-such-room'' ''B'' (srv_registry producing) = []"
proof -
  note th = getOtherPeersProducers_excludes_own [of exampleRoomId "''B''" "srv_registry producing"]
  from th have "\<forall>e \<in> set (getOtherPeersProducers exampleRoomId ''B'' (srv_registry producing)).
      entry_peerId e \<noteq> ''B''" by blast
  then have a: "entry_peerId \<lparr>entry_producerId = ''prod1'', entry_peerId = ''A'', entry_userId = ''u1'',
         entry_username = ''Alice'', entry_kind = ''video''\<rparr> \<noteq> ''B''"
    unfolding producing_others by simp
  note own = getOtherPeersProducers_excludes_own
    [of exampleRoomId "''A''" "srv_registry producing", THEN conjunct2, THEN conjunct1,
     rule_format, of exampleProducer alicePeer]
  then have b: "\<lparr>entry_producerId = ''prod1'', entry_peerId = ''A'', entry_userId = ''u1'',
         entry_username = ''Alice'', entry_kind = ''video''\<rparr>
       \<notin> set (getOtherPeersProducers exampleRoomId ''A'' (srv_registry producing))"
    by (simp add: exampleProducer_def alicePeer_def)
  have none: "map_of (rooms (srv_registry producing)) ''no-such-room'' = None"
    by (simp add: producing_registry exampleRoomId_def)
  note th2 = getOtherPeersProducers_excludes_own
    [of "''no-such-room''" "''B''" "srv_registry producing", THEN conjunct2, THEN conjunct2,
     rule_format, OF none]
  from producing_others(1) a b none th2 show ?thesis by blast
qed

text \<open>
  In the scenario: the first \<open>createRoom\<close> inserts the room, and a later one with another
  router on offer returns the registered room unchanged.
\<close>

theorem createRoom_idempotent_witness:
  "map_of (rooms (srv_registry emptyServer)) exampleRoomId = None
   \<and> createRoom (Inr exampleRouter) 1700000001000 exampleRoomId (srv_registry emptyServer)
       = (Inr (exampleRoom []),
          \<lparr>rooms = [(exampleRoomId, exampleRoom [])], engineLog = [CreateRouter]\<rparr>)
   \<and> map_of (rooms (srv_registry bothJoined)) exampleRoomId
       = Some (exampleRoom [(''A'', alicePeer), (''B'', bobPeer)])
   \<and> createRoom (Inr \<lparr>router_id = ''router2'', router_rtpCapabilities = ''caps''\<rparr>)
        1700000005000 exampleRoomId (srv_registry bothJoined)
       = (Inr (exampleRoom [(''A'', alicePeer), (''B'', bobPeer)]), srv_registry bothJoined)"
proof -
  have none: "map_of (rooms (srv_registry emptyServer)) exampleRoomId = None"
    by (simp add: emptyServer_def)
  have some: "map_of (rooms (srv_registry bothJoined)) exampleRoomId
       = Some (exampleRoom [(''A'', alicePeer), (''B'', bobPeer)])"
    by (simp add: bothJoined_eq)
  note th1 = createRoom_idempotent
    [of "srv_registry emptyServer" exampleRoomId _ _ exampleRouter, THEN conjunct2, rule_format,
     OF none, THEN conjunct1]
  note th2 = createRoom_idempotent
    [of "srv_registry bothJoined" exampleRoomId, THEN conjunct1, rule_format, OF some]
  from th1 [of 1700000001000]
  have a: "createRoom (Inr exampleRouter) 1700000001000 exampleRoomId (srv_registry emptyServer)
       = (Inr (exampleRoom []),
          \<lparr>rooms = [(exampleRoomId, exampleRoom [])], engineLog = [CreateRouter]\<rparr>)"
    by (simp add: exampleRoom_def emptyServer_def)
  from none a some th2 show ?thesis by blast
qed

text \<open>
  Claim C10 in the scenario: adding Bob, who is not yet in the room.
\<close>

theorem addPeer_new_peer_is_empty_witness:
  "addPeer exampleRoomId ''B'' ''u2'' ''Bob'' (srv_registry aliceOnly)
     = (Inr bobPeer, srv_registry bothJoined)
   \<and> getPeer exampleRoomId ''B'' (srv_registry aliceOnly) = None
   \<and> peer_transports bobPeer = [] \<and> peer_producers bobPeer = [] \<and> peer_consumers bobPeer = []
   \<and> getOtherPeersProducers exampleRoomId ''A'' (srv_registry bothJoined)
       = getOtherPeersProducers exampleRoomId ''A'' (srv_registry aliceOnly)
   \<and> getRoomPeers exampleRoomId (srv_registry bothJoined)
       = getRoomPeers exampleRoomId (srv_registry aliceOnly)
          @ [\<lparr>roster_peerId = ''B'', roster_userId = ''u2'', roster_username = ''Bob''\<rparr>]"
proof -
  have ok: "addPeer exampleRoomId ''B'' ''u2'' ''Bob'' (srv_registry aliceOnly)
     = (Inr bobPeer, srv_registry bothJoined)"
    by (simp add: addPeer_def aliceOnly_eq bothJoined_eq exampleRoom_def bobPeer_def Let_def)
  have absent: "getPeer exampleRoomId ''B'' (srv_registry aliceOnly) = None"
    by (simp add: getPeer_def aliceOnly_eq exampleRoom_def)
  note th = addPeer_new_peer_is_empty [OF ok]
  from th have e: "peer_transports bobPeer = [] \<and> peer_producers bobPeer = [] \<and> peer_consumers bobPeer = []"
    by blast
  from th absent have f: "getOtherPeersProducers exampleRoomId ''A'' (srv_registry bothJoined)
       = getOtherPeersProducers exampleRoomId ''A'' (srv_registry aliceOnly)"
    by blast
  from th absent have g: "getRoomPeers exampleRoomId (srv_registry bothJoined)
       = getRoomPeers exampleRoomId (srv_registry aliceOnly)
          @ [\<lparr>roster_peerId = ''B'', roster_userId = ''u2'', roster_username = ''Bob''\<rparr>]"
    by blast
  from ok absent e f g show ?thesis by blast
qed

text \<open>
  Claim C10 as stated fails: adding peer \<open>A\<close> again removes Alice's producer from what
  Bob is shown, and the roster gains no entry.
\<close>

theorem addPeer_rejoin_counterexample:
  "fst (addPeer exampleRoomId ''A'' ''u1'' ''Alice'' (srv_registry producing)) = Inr alicePeer
   \<and> getOtherPeersProducers exampleRoomId ''B'' (srv_registry producing)
       = [\<lparr>entry_producerId = ''prod1'', entry_peerId = ''A'', entry_userId = ''u1'',
           entry_username = ''Alice'', entry_kind = ''video''\<rparr>]
   \<and> getOtherPeersProducers exampleRoomId ''B''
        (snd (addPeer exampleRoomId ''A'' ''u1'' ''Alice'' (srv_registry producing))) = []
   \<and> getRoomPeers exampleRoomId
        (snd (addPeer exampleRoomId ''A'' ''u1'' ''Alice'' (srv_registry producing)))
       = getRoomPeers exampleRoomId (srv_registry producing)"
  unfolding rejoin_eval producing_others
  by (simp add: getOtherPeersProducers_def getRoomPeers_def producing_lookup exampleRoom_def
      alicePeer_def bobPeer_def)

text \<open>
  Claim C1 in the scenario: after Alice's \<open>leaveRoom\<close> and \<open>disconnect\<close>, Bob has
  been sent \<open>peerLeft\<close> for Alice twice.
\<close>

theorem handleDisconnect_twice_broadcasts_twice_witness:
  "socket_roomId aliceSocket = Some exampleRoomId
   \<and> srv_emitted (on_disconnect aliceSocket (on_leaveRoom aliceSocket bothJoined))
       = srv_emitted bothJoined
         @ [\<lparr>emit_room = exampleRoomId, emit_recipients = [''B''], emit_event = PeerLeft ''A''\<rparr>,
            \<lparr>emit_room = exampleRoomId, emit_recipients = [''B''], emit_event = PeerLeft ''A''\<rparr>]
   \<and> peerLeftReceived ''B'' ''A'' (on_disconnect aliceSocket (on_leaveRoom aliceSocket bothJoined)) = 2"
proof -
  have bound: "socket_roomId aliceSocket = Some exampleRoomId"
    by (simp add: aliceSocket_eq)
  have sid: "socket_id aliceSocket = ''A''" by (simp add: aliceSocket_eq)
  have mem: "filter (\<lambda>m. m \<noteq> ''A'') (members bothJoined exampleRoomId) = [''B'']"
    by (simp add: bothJoined_eq members_def)
  note th = handleDisconnect_twice_broadcasts_twice [OF bound, of bothJoined, unfolded sid mem]
  from th have em: "srv_emitted (on_disconnect aliceSocket (on_leaveRoom aliceSocket bothJoined))
       = srv_emitted bothJoined
         @ [\<lparr>emit_room = exampleRoomId, emit_recipients = [''B''], emit_event = PeerLeft ''A''\<rparr>,
            \<lparr>emit_room = exampleRoomId, emit_recipients = [''B''], emit_event = PeerLeft ''A''\<rparr>]"
    by blast
  have "peerLeftReceived ''B'' ''A'' (on_disconnect aliceSocket (on_leaveRoom aliceSocket bothJoined)) = 2"
    unfolding peerLeftReceived_def em by (simp add: bothJoined_eq)
  with bound em show ?thesis by blast
qed

subsection \<open>Two joins of an unregistered room in flight\<close>

lemma alice_begin:
  "on_joinRoom_begin 1700000001000 (joinData exampleRoomId ''u1'' ''Alice'') (newSocket ''A'')
       emptyServer
     = AwaitingRouter exampleRoomId ''u1'' ''Alice''
         (emptyServer\<lparr>srv_registry := \<lparr>rooms = [], engineLog = [CreateRouter]\<rparr>\<rparr>)"
  unfolding on_joinRoom_begin_def joinData_def
  using exampleRoomId_not_Nil example_not_expired(1)
  by (simp add: getRoom_def createRoom_begin_def engineCall_def emptyServer_def
      del: isMeetingExpired.simps)

lemma aliceWaiting_eq:
  "aliceWaiting = emptyServer\<lparr>srv_registry := \<lparr>rooms = [], engineLog = [CreateRouter]\<rparr>\<rparr>"
  by (simp add: aliceWaiting_def alice_begin)

lemma bob_begin:
  "on_joinRoom_begin 1700000001000 (joinData exampleRoomId ''u2'' ''Bob'') (newSocket ''B'')
       aliceWaiting
     = AwaitingRouter exampleRoomId ''u2'' ''Bob''
         (emptyServer\<lparr>srv_registry := \<lparr>rooms = [], engineLog = [CreateRouter, CreateRouter]\<rparr>\<rparr>)"
  unfolding on_joinRoom_begin_def joinData_def aliceWaiting_eq
  using exampleRoomId_not_Nil example_not_expired(1)
  by (simp add: getRoom_def createRoom_begin_def engineCall_def emptyServer_def
      del: isMeetingExpired.simps)

lemma bothWaiting_eq:
  "bothWaiting = emptyServer\<lparr>srv_registry := \<lparr>rooms = [], engineLog = [CreateRouter, CreateRouter]\<rparr>\<rparr>"
  by (simp add: bothWaiting_def bob_begin)

lemma aliceRaced_eq:
  "aliceRaced =
    (JoinSuccess [],
     \<lparr>socket_id = ''A'', socket_roomId = Some exampleRoomId, socket_userId = Some ''u1'',
       socket_username = Some ''Alice''\<rparr>,
     \<lparr>srv_registry = \<lparr>rooms = [(exampleRoomId, exampleRoom [(''A'', alicePeer)])],
                       engineLog = [CreateRouter, CreateRouter]\<rparr>,
      srv_adapter = [(exampleRoomId, [''A''])],
      srv_emitted = [\<lparr>emit_room = exampleRoomId, emit_recipients = [],
                      emit_event = NewPeer ''A'' ''u1'' ''Alice''\<rparr>]\<rparr>)"
  unfolding aliceRaced_def bothWaiting_eq on_joinRoom_resume_def on_joinRoom_finish_def
    newSocket_def emptyServer_def exampleRoom_def alicePeer_def
  by (simp add: createRoom_resume_def addPeer_def getRoomPeers_def socketJoin_def members_def
      emitToRoom_def Let_def)

lemma bobRaced_eq:
  "bobRaced =
    (JoinSuccess [],
     \<lparr>socket_id = ''B'', socket_roomId = Some exampleRoomId, socket_userId = Some ''u2'',
       socket_username = Some ''Bob''\<rparr>,
     \<lparr>srv_registry =
        \<lparr>rooms = [(exampleRoomId,
            \<lparr>room_id = exampleRoomId, room_router = secondRouter,
              room_peers = [(''B'', bobPeer)], room_createdAt = 1700000002000\<rparr>)],
         engineLog = [CreateRouter, CreateRouter]\<rparr>,
      srv_adapter = [(exampleRoomId, [''A'', ''B''])],
      srv_emitted = [\<lparr>emit_room = exampleRoomId, emit_recipients = [],
                      emit_event = NewPeer ''A'' ''u1'' ''Alice''\<rparr>,
                     \<lparr>emit_room = exampleRoomId, emit_recipients = [''A''],
                      emit_event = NewPeer ''B'' ''u2'' ''Bob''\<rparr>]\<rparr>)"
  unfolding bobRaced_def aliceRaced_eq on_joinRoom_resume_def on_joinRoom_finish_def
    newSocket_def bobPeer_def
  by (simp add: createRoom_resume_def addPeer_def getRoomPeers_def socketJoin_def members_def
      emitToRoom_def Let_def)

text \<open>
  Claim C6 in the scenario: both requests begin on the empty server, the engine answers
  Alice's call first and Bob's second. Two routers are created for the one room id, both
  clients are told they joined, and Alice's peer is not in the registry afterwards.
\<close>

theorem createRoom_two_in_flight_witness:
  "map_of (rooms (srv_registry emptyServer)) exampleRoomId = None
   \<and> srv_registry aliceWaiting = snd (createRoom_begin exampleRoomId (srv_registry emptyServer))
   \<and> srv_registry bothWaiting = snd (createRoom_begin exampleRoomId (srv_registry aliceWaiting))
   \<and> srv_registry afterAliceRaced
       = snd (addPeer exampleRoomId ''A'' ''u1'' ''Alice''
               (snd (createRoom_resume (Inr exampleRouter) 1700000001000 exampleRoomId
                      (srv_registry bothWaiting))))
   \<and> fst aliceRaced = JoinSuccess []
   \<and> getPeer exampleRoomId ''A'' (srv_registry afterAliceRaced) = Some alicePeer
   \<and> engineLog (snd (createRoom_resume (Inr secondRouter) 1700000002000 exampleRoomId
                       (srv_registry afterAliceRaced)))
       = [CreateRouter, CreateRouter]
   \<and> getPeer exampleRoomId ''A''
        (snd (createRoom_resume (Inr secondRouter) 1700000002000 exampleRoomId
               (srv_registry afterAliceRaced))) = None
   \<and> fst bobRaced = JoinSuccess []
   \<and> getPeer exampleRoomId ''A'' (srv_registry afterBobRaced) = None
   \<and> getPeer exampleRoomId ''B'' (srv_registry afterBobRaced) = Some bobPeer"
proof -
  have absent: "map_of (rooms (srv_registry emptyServer)) exampleRoomId = None"
    by (simp add: emptyServer_def)
  have s1: "srv_registry aliceWaiting
      = snd (createRoom_begin exampleRoomId (srv_registry emptyServer))"
    by (simp add: aliceWaiting_eq createRoom_begin_def engineCall_def emptyServer_def)
  have s2: "srv_registry bothWaiting
      = snd (createRoom_begin exampleRoomId (srv_registry aliceWaiting))"
    by (simp add: bothWaiting_eq aliceWaiting_eq createRoom_begin_def engineCall_def emptyServer_def)
  have s4: "srv_registry afterAliceRaced
       = snd (addPeer exampleRoomId ''A'' ''u1'' ''Alice''
               (snd (createRoom_resume (Inr exampleRouter) 1700000001000 exampleRoomId
                      (srv_registry bothWaiting))))"
    by (simp add: afterAliceRaced_def aliceRaced_eq bothWaiting_eq createRoom_resume_def addPeer_def
        emptyServer_def exampleRoom_def alicePeer_def Let_def)
  note th = createRoom_two_in_flight [OF absent s1 s2 refl s4 refl,
      of secondRouter 1700000002000]
  from th have p4: "getPeer exampleRoomId ''A'' (srv_registry afterAliceRaced) = Some alicePeer"
    unfolding alicePeer_def by blast
  from th have "engineLog (snd (createRoom_resume (Inr secondRouter) 1700000002000 exampleRoomId
                       (srv_registry afterAliceRaced)))
       = engineLog (srv_registry emptyServer) @ [CreateRouter, CreateRouter]"
    by blast
  then have log: "engineLog (snd (createRoom_resume (Inr secondRouter) 1700000002000 exampleRoomId
                       (srv_registry afterAliceRaced)))
       = [CreateRouter, CreateRouter]"
    by (simp add: emptyServer_def)
  from th have p5: "getPeer exampleRoomId ''A''
        (snd (createRoom_resume (Inr secondRouter) 1700000002000 exampleRoomId
               (srv_registry afterAliceRaced))) = None"
    by blast
  have ra: "fst aliceRaced = JoinSuccess []" by (simp add: aliceRaced_eq)
  have rb: "fst bobRaced = JoinSuccess []" by (simp add: bobRaced_eq)
  have fa: "getPeer exampleRoomId ''A'' (srv_registry afterBobRaced) = None"
    by (simp add: afterBobRaced_def bobRaced_eq getPeer_def)
  have fb: "getPeer exampleRoomId ''B'' (srv_registry afterBobRaced) = Some bobPeer"
    by (simp add: afterBobRaced_def bobRaced_eq getPeer_def)
  from absent s1 s2 s4 ra p4 log p5 rb fa fb show ?thesis by blast
qed

end
